theory Spec2Isabelle
  imports Complex_Main
begin

section \<open>JavaScript values as the server sees them\<close>

text \<open>
  The server (server/Server.js) works on JSON payloads: the request body parsed by
  \<^verbatim>\<open>express.json\<close> and the upstream answer parsed by axios. A JavaScript number is
  a finite value, an infinity or NaN; the finite ones are modelled by the rationals, which
  contain every finite double, so that \<^verbatim>\<open>Math.round\<close> and \<^verbatim>\<open>Math.max\<close> (both
  exact on doubles) are exact here as well. An object is the list of its properties, whose
  names are distinct; \<open>JUndefined\<close> is the value of a missing property.
\<close>

datatype jsnum = NaN | Fin rat | PosInf | NegInf

datatype json =
    JUndefined
  | JNull
  | JBool bool
  | JNum jsnum
  | JStr string
  | JArr "json list"
  | JObj "(string \<times> json) list"

text \<open>\<^verbatim>\<open>!!v\<close>: undefined, null, false, 0, NaN and the empty string are falsy.\<close>

fun truthy :: "json \<Rightarrow> bool" where
  "truthy JUndefined = False"
| "truthy JNull = False"
| "truthy (JBool b) = b"
| "truthy (JNum n) = (n \<noteq> NaN \<and> n \<noteq> Fin 0)"
| "truthy (JStr s) = (s \<noteq> [])"
| "truthy (JArr xs) = True"
| "truthy (JObj kvs) = True"

text \<open>\<^verbatim>\<open>a || b\<close> and \<^verbatim>\<open>a ?? b\<close>.\<close>

definition js_or :: "json \<Rightarrow> json \<Rightarrow> json" where
  "js_or a b = (if truthy a then a else b)"

definition nullish :: "json \<Rightarrow> bool" where
  "nullish v = (v = JUndefined \<or> v = JNull)"

definition js_coalesce :: "json \<Rightarrow> json \<Rightarrow> json" where
  "js_coalesce a b = (if nullish a then b else a)"

text \<open>
  \<^verbatim>\<open>v?.f\<close> for the property names the server reads (to, body, sendAt, lat, lon,
  notify_phone, red_alert, hazard_level, energy_megatons, overpressure, mode, threshold,
  radius_km): an object yields its property, or undefined when it has none; null and
  undefined short-circuit to undefined; strings, numbers, booleans and arrays have no
  property of these names.
\<close>

fun field :: "json \<Rightarrow> string \<Rightarrow> json" where
  "field (JObj kvs) f = (case map_of kvs f of Some v \<Rightarrow> v | None \<Rightarrow> JUndefined)"
| "field v f = JUndefined"

text \<open>
  An exception raised by the language: every one the server can meet on a JSON payload is
  a TypeError, given here by its message (the engine's text, V8). A computation that may
  raise returns \<open>Inl\<close> of the error or \<open>Inr\<close> of its value; \<open>and_then\<close> goes on with
  the value and passes an error through, as the statements of a block do.
\<close>

datatype js_error = TypeError string

definition and_then :: "js_error + 'a \<Rightarrow> ('a \<Rightarrow> js_error + 'b) \<Rightarrow> js_error + 'b" where
  "and_then x f = (case x of Inl e \<Rightarrow> Inl e | Inr v \<Rightarrow> f v)"

fun first_error :: "(js_error + 'a) list \<Rightarrow> js_error + 'a list" where
  "first_error [] = Inr []"
| "first_error (Inl e # rs) = Inl e"
| "first_error (Inr v # rs) = (case first_error rs of Inl e \<Rightarrow> Inl e | Inr vs \<Rightarrow> Inr (v # vs))"

text \<open>
  The conversions between numbers and strings are built-ins of the language whose results
  depend on the double-precision representation (shortest round-trip digits, decimal
  parsing). They are parameters of the model: every theorem below that does not fix them
  holds for all of them.
\<close>

record js_builtins =
  number_to_string :: "jsnum \<Rightarrow> string"
  string_to_number :: "string \<Rightarrow> jsnum"

fun join_comma :: "string list \<Rightarrow> string" where
  "join_comma [] = []"
| "join_comma [s] = s"
| "join_comma (s # t # ss) = s @ '','' @ join_comma (t # ss)"

text \<open>
  \<^verbatim>\<open>`${v}`\<close>, the ToString of a template literal. An array joins its elements with
  commas, null and undefined elements giving the empty string, and raises when an element
  does. An object is converted by its \<^verbatim>\<open>toString\<close> method: a parsed object that has a
  property of its own named \<^verbatim>\<open>toString\<close> (whatever its value, none is callable) hides
  the inherited method, \<^verbatim>\<open>valueOf\<close> gives no primitive either (one of its own is not
  callable, the inherited one returns the object itself), and the conversion raises a
  TypeError; any other object gives \<^verbatim>\<open>[object Object]\<close>.
\<close>

fun to_string :: "js_builtins \<Rightarrow> json \<Rightarrow> js_error + string" where
  "to_string js JUndefined = Inr ''undefined''"
| "to_string js JNull = Inr ''null''"
| "to_string js (JBool b) = Inr (if b then ''true'' else ''false'')"
| "to_string js (JNum n) = Inr (number_to_string js n)"
| "to_string js (JStr s) = Inr s"
| "to_string js (JArr xs) =
     (case first_error
             (map (\<lambda>x. if x = JUndefined \<or> x = JNull then Inr [] else to_string js x) xs) of
        Inl e \<Rightarrow> Inl e
      | Inr ss \<Rightarrow> Inr (join_comma ss))"
| "to_string js (JObj kvs) =
     (if map_of kvs ''toString'' = None then Inr ''[object Object]''
      else Inl (TypeError ''Cannot convert object to primitive value''))"

text \<open>
  \<^verbatim>\<open>Number(v)\<close>: objects and arrays go through their string (\<^verbatim>\<open>valueOf\<close> gives
  no primitive), and raise when that conversion does.
\<close>

fun to_number :: "js_builtins \<Rightarrow> json \<Rightarrow> js_error + jsnum" where
  "to_number js JUndefined = Inr NaN"
| "to_number js JNull = Inr (Fin 0)"
| "to_number js (JBool b) = Inr (if b then Fin 1 else Fin 0)"
| "to_number js (JNum n) = Inr n"
| "to_number js (JStr s) = Inr (string_to_number js s)"
| "to_number js (JArr xs) =
     (case to_string js (JArr xs) of Inl e \<Rightarrow> Inl e | Inr s \<Rightarrow> Inr (string_to_number js s))"
| "to_number js (JObj kvs) =
     (case to_string js (JObj kvs) of Inl e \<Rightarrow> Inl e | Inr s \<Rightarrow> Inr (string_to_number js s))"

text \<open>
  \<^verbatim>\<open>Math.round\<close> is the nearest integer, a tie going towards plus infinity;
  \<^verbatim>\<open>Math.max\<close> is NaN as soon as one argument is.
\<close>

fun math_round :: "jsnum \<Rightarrow> jsnum" where
  "math_round (Fin q) = Fin (of_int \<lfloor>q + 1 / 2\<rfloor>)"
| "math_round n = n"

fun math_max :: "jsnum \<Rightarrow> jsnum \<Rightarrow> jsnum" where
  "math_max NaN b = NaN"
| "math_max a NaN = NaN"
| "math_max PosInf b = PosInf"
| "math_max a PosInf = PosInf"
| "math_max NegInf b = b"
| "math_max a NegInf = a"
| "math_max (Fin a) (Fin b) = Fin (max a b)"

section \<open>Decimal digits, \<^verbatim>\<open>toFixed(3)\<close> and \<^verbatim>\<open>toISOString()\<close>\<close>

definition digit :: "int \<Rightarrow> char" where
  "digit d = ''0123456789'' ! nat (d mod 10)"

definition pad2 :: "int \<Rightarrow> string" where
  "pad2 n = [digit (n div 10), digit n]"

definition pad3 :: "int \<Rightarrow> string" where
  "pad3 n = [digit (n div 100), digit (n div 10), digit n]"

definition pad4 :: "int \<Rightarrow> string" where
  "pad4 n = [digit (n div 1000), digit (n div 100), digit (n div 10), digit n]"

definition pad6 :: "int \<Rightarrow> string" where
  "pad6 n = [digit (n div 100000), digit (n div 10000), digit (n div 1000),
             digit (n div 100), digit (n div 10), digit n]"

fun decimal :: "nat \<Rightarrow> string" where
  "decimal n = (if n < 10 then [digit (int n)] else decimal (n div 10) @ [digit (int n)])"

declare decimal.simps [simp del]

text \<open>
  \<^verbatim>\<open>x.toFixed(3)\<close>: the sign, then the integer n nearest to 1000 |x| (the larger one at a
  tie) written with a point before its last three digits. Values of magnitude 10^21 and
  more, and the non-finite ones, are handed to the number-to-string conversion.
\<close>

definition toFixed3 :: "js_builtins \<Rightarrow> jsnum \<Rightarrow> string" where
  "toFixed3 js x =
     (case x of
        Fin q \<Rightarrow>
          (let s = (if q < 0 then ''-'' else []); a = \<bar>q\<bar> in
           if 10 ^ 21 \<le> a then s @ number_to_string js (Fin a)
           else (let n = \<lfloor>a * 1000 + 1 / 2\<rfloor>
                 in s @ decimal (nat (n div 1000)) @ ''.'' @ pad3 (n mod 1000)))
      | _ \<Rightarrow> number_to_string js x)"

text \<open>
  \<^verbatim>\<open>new Date(t).toISOString()\<close> for a time value t in milliseconds since the epoch
  (UTC, proleptic Gregorian calendar). Years outside 0..9999 take the expanded form with
  a sign and six digits. The clock only delivers time values inside the range of Date,
  where the conversion does not raise.
\<close>

definition iso_year :: "int \<Rightarrow> string" where
  "iso_year y = (if 0 \<le> y \<and> y \<le> 9999 then pad4 y
                 else if y < 0 then ''-'' @ pad6 (- y) else ''+'' @ pad6 y)"

definition civil_from_days :: "int \<Rightarrow> int \<times> int \<times> int" where
  "civil_from_days days =
     (let z = days + 719468;
          era = z div 146097;
          doe = z mod 146097;
          yoe = (doe - doe div 1460 + doe div 36524 - doe div 146096) div 365;
          doy = doe - (365 * yoe + yoe div 4 - yoe div 100);
          mp = (5 * doy + 2) div 153;
          d = doy - (153 * mp + 2) div 5 + 1;
          mo = (if mp < 10 then mp + 3 else mp - 9);
          y = yoe + era * 400 + (if mo \<le> 2 then 1 else 0)
      in (y, mo, d))"

definition toISOString :: "int \<Rightarrow> string" where
  "toISOString t =
     (let (y, mo, d) = civil_from_days (t div 86400000);
          ms = t mod 86400000
      in iso_year y @ ''-'' @ pad2 mo @ ''-'' @ pad2 d @ ''T'' @
         pad2 (ms div 3600000) @ '':'' @ pad2 (ms div 60000 mod 60) @ '':'' @
         pad2 (ms div 1000 mod 60) @ ''.'' @ pad3 (ms mod 1000) @ ''Z'')"

section \<open>Env\<close>

text \<open>
  The environment variables the SMS path reads; each is undefined or a string.
  \<open>twilioClient\<close> is true when a client object was built and false when it is null.
\<close>

record config =
  TWILIO_ACCOUNT_SID :: "string option"
  TWILIO_AUTH_TOKEN :: "string option"
  TWILIO_MESSAGING_SID :: "string option"
  TWILIO_MESSAGING_SERVICE_SID :: "string option"
  ALERT_PHONE :: "string option"

definition env :: "string option \<Rightarrow> json" where
  "env v = (case v of None \<Rightarrow> JUndefined | Some s \<Rightarrow> JStr s)"

definition TWILIO_MSID :: "config \<Rightarrow> json" where
  "TWILIO_MSID cfg = js_or (env (TWILIO_MESSAGING_SID cfg)) (env (TWILIO_MESSAGING_SERVICE_SID cfg))"

definition DEFAULT_ALERT_TO :: "config \<Rightarrow> json" where
  "DEFAULT_ALERT_TO cfg = env (ALERT_PHONE cfg)"

definition twilioClient :: "config \<Rightarrow> bool" where
  "twilioClient cfg =
     (truthy (env (TWILIO_ACCOUNT_SID cfg)) \<and> truthy (env (TWILIO_AUTH_TOKEN cfg)))"

section \<open>De-duplication (basic debounce)\<close>

text \<open>
  \<^verbatim>\<open>lastSendByKey\<close> is a Map from key to timestamp (milliseconds since the epoch, as
  \<^verbatim>\<open>Date.now()\<close> returns them). \<open>shouldSend\<close> takes the clock reading and the map and
  returns its verdict with the map as it leaves it.
\<close>

type_synonym window = "string \<rightharpoonup> int"

definition DEBOUNCE_MS :: int where
  "DEBOUNCE_MS = 90 * 1000"

definition shouldSend :: "int \<Rightarrow> string \<Rightarrow> window \<Rightarrow> bool \<times> window" where
  "shouldSend now key m =
     (let last = (case m key of None \<Rightarrow> 0 | Some t \<Rightarrow> if t = 0 then 0 else t)
      in if now - last < DEBOUNCE_MS then (False, m) else (True, m(key \<mapsto> now)))"

section \<open>Twilio helpers\<close>

text \<open>
  What the handlers do to the outside is recorded in order: a socket broadcast
  (\<^verbatim>\<open>io.emit("red_alert", payload)\<close>), a call of \<open>shouldSend\<close> with its key, clock
  reading and verdict, a call of one of the two helpers with its arguments, and a call of
  \<^verbatim>\<open>twilioClient.messages.create\<close>. Console output is not recorded.

  The provider is an argument: it maps the request handed to
  \<^verbatim>\<open>messages.create\<close> to a created message (its sid) or to a thrown error, given by
  its \<^verbatim>\<open>message\<close> property and its \<^verbatim>\<open>String(err)\<close>.
\<close>

datatype provider_call =
    Create json json json
  | CreateFixed json json json json

datatype provider_outcome = Created json | Threw json string

type_synonym provider = "provider_call \<Rightarrow> provider_outcome"

datatype effect =
    Emit json
  | Check string int bool
  | SendImmediate json json
  | Schedule json json json
  | Provider provider_call

datatype dispatch_result = Sent json | Failed json

definition requireTwilio :: "config \<Rightarrow> bool" where
  "requireTwilio cfg =
     (if \<not> twilioClient cfg then False
      else if \<not> truthy (TWILIO_MSID cfg) then False
      else True)"

definition sendImmediateSMS ::
  "config \<Rightarrow> provider \<Rightarrow> json \<Rightarrow> json \<Rightarrow> dispatch_result \<times> effect list" where
  "sendImmediateSMS cfg twilio to body =
     (if \<not> requireTwilio cfg then (Failed (JStr ''Twilio not configured''), [])
      else if \<not> truthy to then (Failed (JStr ''Missing \"to\" number''), [])
      else if \<not> truthy body then (Failed (JStr ''Missing \"body\"''), [])
      else (let req = Create to body (TWILIO_MSID cfg) in
            case twilio req of
              Created sid \<Rightarrow> (Sent sid, [Provider req])
            | Threw msg str \<Rightarrow> (Failed (js_or msg (JStr str)), [Provider req])))"

definition scheduleSMS ::
  "config \<Rightarrow> provider \<Rightarrow> json \<Rightarrow> json \<Rightarrow> json \<Rightarrow> dispatch_result \<times> effect list" where
  "scheduleSMS cfg twilio to body sendAtISO =
     (if \<not> requireTwilio cfg then (Failed (JStr ''Twilio not configured''), [])
      else if \<not> truthy to then (Failed (JStr ''Missing \"to\" number''), [])
      else if \<not> truthy body then (Failed (JStr ''Missing \"body\"''), [])
      else (let req = CreateFixed to body (TWILIO_MSID cfg) sendAtISO in
            case twilio req of
              Created sid \<Rightarrow> (Sent sid, [Provider req])
            | Threw msg str \<Rightarrow> (Failed (js_or msg (JStr str)), [Provider req])))"

section \<open>Manual SMS\<close>

text \<open>
  A handler returns the HTTP response it sends, the effects in order and the suppression
  map as it leaves it. When an exception escapes the handler it sends no response itself,
  and the response is \<open>Inl\<close> of the exception (what the framework does with the rejected
  promise is outside the model). The two default message bodies end in a symbol outside
  ASCII, kept as the bytes the source file has there.
\<close>

datatype http_response = Response nat json

record reply =
  response :: "js_error + http_response"
  effects :: "effect list"
  store :: window

definition result_json :: "dispatch_result \<Rightarrow> json" where
  "result_json r =
     (case r of
        Sent sid \<Rightarrow> JObj [(''ok'', JBool True), (''sid'', sid)]
      | Failed e \<Rightarrow> JObj [(''ok'', JBool False), (''error'', e)])"

definition result_response :: "dispatch_result \<Rightarrow> http_response" where
  "result_response r =
     (case r of Failed e \<Rightarrow> Response 400 (result_json r) | Sent sid \<Rightarrow> Response 200 (result_json r))"

definition check_mark :: string where
  "check_mark = [CHR 0xC3, CHR 0xA2, CHR 0xC5, CHR 0x93, CHR 0xE2, CHR 0x80, CHR 0xA6]"

definition clock_mark :: string where
  "clock_mark = [CHR 0xC3, CHR 0xA2, CHR 0xC2, CHR 0xB0]"

definition send_to :: "config \<Rightarrow> json \<Rightarrow> json" where
  "send_to cfg req_body = js_or (field req_body ''to'') (DEFAULT_ALERT_TO cfg)"

definition send_body :: "json \<Rightarrow> json" where
  "send_body req_body = js_or (field req_body ''body'') (JStr (''Test from Node '' @ check_mark))"

text \<open>
  The key \<^verbatim>\<open>`send|${to}|${body}`\<close> converts the recipient and then the body; the handler
  has no \<^verbatim>\<open>try\<close> block, so a conversion that raises ends it before \<open>shouldSend\<close>.
\<close>

definition send_key :: "js_builtins \<Rightarrow> config \<Rightarrow> json \<Rightarrow> js_error + string" where
  "send_key js cfg req_body =
     and_then (to_string js (send_to cfg req_body)) (\<lambda>to.
     and_then (to_string js (send_body req_body)) (\<lambda>body.
     Inr (''send|'' @ to @ ''|'' @ body)))"

definition send_sms ::
  "js_builtins \<Rightarrow> config \<Rightarrow> provider \<Rightarrow> int \<Rightarrow> window \<Rightarrow> json \<Rightarrow> reply" where
  "send_sms js cfg twilio now m req_body =
     (let to = send_to cfg req_body;
          body = send_body req_body
      in case send_key js cfg req_body of
           Inl e \<Rightarrow> \<lparr>response = Inl e, effects = [], store = m\<rparr>
         | Inr key \<Rightarrow>
             (let (ok, m') = shouldSend now key m
              in if \<not> ok then
                   \<lparr>response = Inr (Response 429 (JObj [(''error'', JStr ''Debounced duplicate send'')])),
                    effects = [Check key now False], store = m'\<rparr>
                 else (let (r, fx) = sendImmediateSMS cfg twilio to body
                       in \<lparr>response = Inr (result_response r),
                           effects = Check key now True # SendImmediate to body # fx,
                           store = m'\<rparr>)))"

text \<open>
  The scheduled variant reads the clock twice: once for the default of \<^verbatim>\<open>sendAt\<close>
  (\<open>now0\<close>), once inside \<open>shouldSend\<close> (\<open>now\<close>).
\<close>

definition schedule_body :: "json \<Rightarrow> json" where
  "schedule_body req_body =
     js_or (field req_body ''body'') (JStr (''Scheduled from Node '' @ clock_mark))"

definition schedule_sendAt :: "int \<Rightarrow> json \<Rightarrow> json" where
  "schedule_sendAt now0 req_body =
     js_or (field req_body ''sendAt'') (JStr (toISOString (now0 + 60000)))"

definition schedule_key :: "js_builtins \<Rightarrow> config \<Rightarrow> int \<Rightarrow> json \<Rightarrow> js_error + string" where
  "schedule_key js cfg now0 req_body =
     and_then (to_string js (send_to cfg req_body)) (\<lambda>to.
     and_then (to_string js (schedule_body req_body)) (\<lambda>body.
     and_then (to_string js (schedule_sendAt now0 req_body)) (\<lambda>sendAtISO.
     Inr (''sched|'' @ to @ ''|'' @ body @ ''|'' @ sendAtISO))))"

definition schedule_sms ::
  "js_builtins \<Rightarrow> config \<Rightarrow> provider \<Rightarrow> int \<Rightarrow> int \<Rightarrow> window \<Rightarrow> json \<Rightarrow> reply" where
  "schedule_sms js cfg twilio now0 now m req_body =
     (let to = send_to cfg req_body;
          body = schedule_body req_body;
          sendAtISO = schedule_sendAt now0 req_body
      in case schedule_key js cfg now0 req_body of
           Inl e \<Rightarrow> \<lparr>response = Inl e, effects = [], store = m\<rparr>
         | Inr key \<Rightarrow>
             (let (ok, m') = shouldSend now key m
              in if \<not> ok then
                   \<lparr>response =
                      Inr (Response 429 (JObj [(''error'', JStr ''Debounced duplicate schedule'')])),
                    effects = [Check key now False], store = m'\<rparr>
                 else (let (r, fx) = scheduleSMS cfg twilio to body sendAtISO
                       in \<lparr>response = Inr (result_response r),
                           effects = Check key now True # Schedule to body sendAtISO # fx,
                           store = m'\<rparr>)))"

section \<open>Proxy to FastAPI + alert bridge\<close>

text \<open>
  \<^verbatim>\<open>data?.overpressure?.find((b) => b.threshold === "5 psi")?.radius_km\<close>. The chain
  stops with undefined when \<open>overpressure\<close> is null or undefined. An array is searched
  from the front, and reading \<^verbatim>\<open>b.threshold\<close> of a null or undefined element raises
  a TypeError; any other value has no \<^verbatim>\<open>find\<close> method and the call raises a
  TypeError.
\<close>

fun find_5psi :: "json list \<Rightarrow> js_error + json" where
  "find_5psi [] = Inr JUndefined"
| "find_5psi (b # bs) =
     (if nullish b then
        Inl (TypeError (''Cannot read properties of '' @
               (if b = JNull then ''null'' else ''undefined'') @ '' (reading 'threshold')''))
      else if field b ''threshold'' = JStr ''5 psi'' then Inr b
      else find_5psi bs)"

definition band_radius :: "json \<Rightarrow> js_error + json" where
  "band_radius data =
     (case field data ''overpressure'' of
        JUndefined \<Rightarrow> Inr JUndefined
      | JNull \<Rightarrow> Inr JUndefined
      | JArr bs \<Rightarrow> (case find_5psi bs of Inl e \<Rightarrow> Inl e | Inr b \<Rightarrow> Inr (field b ''radius_km''))
      | _ \<Rightarrow> Inl (TypeError ''data?.overpressure?.find is not a function''))"

text \<open>The severe radius of the broadcast summary (\<^verbatim>\<open>?? null\<close>) and of the SMS (\<^verbatim>\<open>?? "?"\<close>).\<close>

definition summary_severe_radius :: "json \<Rightarrow> js_error + json" where
  "summary_severe_radius data =
     (case band_radius data of Inl e \<Rightarrow> Inl e | Inr v \<Rightarrow> Inr (js_coalesce v JNull))"

definition sms_severe_radius :: "json \<Rightarrow> js_error + json" where
  "sms_severe_radius data =
     (case band_radius data of Inl e \<Rightarrow> Inl e | Inr v \<Rightarrow> Inr (js_coalesce v (JStr ''?'')))"

definition red_alert_payload :: "int \<Rightarrow> json \<Rightarrow> json \<Rightarrow> json \<Rightarrow> json" where
  "red_alert_payload now0 data severe req_body =
     JObj [(''when'', JStr (toISOString now0)),
           (''summary'', JObj [(''hazard_level'', field data ''hazard_level''),
                               (''energy_megatons'', field data ''energy_megatons''),
                               (''severe_radius_km'', severe),
                               (''mode'', field data ''mode'')]),
           (''location'', JObj [(''lat'', field req_body ''lat''), (''lon'', field req_body ''lon'')])]"

text \<open>
  The text of the alert. \<^verbatim>\<open>c?.toFixed?.(3) ?? c\<close> formats a number and passes a value
  without a \<^verbatim>\<open>toFixed\<close> property through; an object with a property of its own named
  \<^verbatim>\<open>toFixed\<close> passes through when that property is null and raises a TypeError when it
  is anything else, since no parsed value can be called. The pieces of the text are
  converted from left to right, and the first conversion that raises ends the
  composition. The symbols outside ASCII are the bytes of the source file.
\<close>

definition siren_mark :: string where
  "siren_mark = [CHR 0xC3, CHR 0xB0, CHR 0xC5, CHR 0xB8, CHR 0xC5, CHR 0xA1, CHR 0xC2, CHR 0xA8]"

definition dash_mark :: string where
  "dash_mark = [CHR 0xC3, CHR 0xA2, CHR 0xE2, CHR 0x82, CHR 0xAC, CHR 0xE2, CHR 0x80, CHR 0x9C]"

definition approx_mark :: string where
  "approx_mark = [CHR 0xC3, CHR 0xA2, CHR 0xE2, CHR 0x80, CHR 0xB0, CHR 0xCB, CHR 0x86]"

definition coordinate :: "js_builtins \<Rightarrow> string \<Rightarrow> json \<Rightarrow> js_error + json" where
  "coordinate js name c =
     (case c of
        JNum n \<Rightarrow> Inr (js_coalesce (JStr (toFixed3 js n)) c)
      | JObj kvs \<Rightarrow>
          (case map_of kvs ''toFixed'' of
             None \<Rightarrow> Inr (js_coalesce JUndefined c)
           | Some f \<Rightarrow>
               if nullish f then Inr (js_coalesce JUndefined c)
               else Inl (TypeError (''req.body?.'' @ name @ ''?.toFixed is not a function'')))
      | _ \<Rightarrow> Inr (js_coalesce JUndefined c))"

definition number_or_zero :: "jsnum \<Rightarrow> jsnum" where
  "number_or_zero n = (if truthy (JNum n) then n else Fin 0)"

definition min_safe_distance :: "js_builtins \<Rightarrow> json \<Rightarrow> js_error + jsnum" where
  "min_safe_distance js severeRadius =
     and_then (to_number js severeRadius) (\<lambda>n.
     Inr (math_max (Fin 6) (math_round (number_or_zero n))))"

definition alert_body :: "js_builtins \<Rightarrow> json \<Rightarrow> json \<Rightarrow> js_error + string" where
  "alert_body js req_body severeRadius =
     and_then (coordinate js ''lat'' (field req_body ''lat'')) (\<lambda>lat.
     and_then (to_string js lat) (\<lambda>lat_text.
     and_then (coordinate js ''lon'' (field req_body ''lon'')) (\<lambda>lon.
     and_then (to_string js lon) (\<lambda>lon_text.
     and_then (min_safe_distance js severeRadius) (\<lambda>distance.
     and_then (to_string js severeRadius) (\<lambda>radius_text.
     Inr (siren_mark @ '' EVACUATE NOW '' @ dash_mark @ '' area near '' @ lat_text @ '','' @
          lon_text @ ''. '' @
          ''Move beyond '' @ number_to_string js distance @ ''km from impact point. '' @
          ''Severe zone '' @ approx_mark @ '' '' @ radius_text @ ''km. '' @
          ''If coastal, go inland/uphill. Help: 104 '' @ dash_mark @
          '' Disaster Mgmt Dept'')))))))"

definition alert_to :: "config \<Rightarrow> json \<Rightarrow> json" where
  "alert_to cfg req_body = js_or (field req_body ''notify_phone'') (DEFAULT_ALERT_TO cfg)"

definition alert_key :: "js_builtins \<Rightarrow> config \<Rightarrow> json \<Rightarrow> json \<Rightarrow> js_error + string" where
  "alert_key js cfg req_body severeRadius =
     and_then (to_string js (alert_to cfg req_body)) (\<lambda>to.
     and_then (to_string js (field req_body ''lat'')) (\<lambda>lat.
     and_then (to_string js (field req_body ''lon'')) (\<lambda>lon.
     and_then (to_string js severeRadius) (\<lambda>radius.
     Inr (''alert|'' @ to @ ''|'' @ lat @ ''|'' @ lon @ ''|'' @ radius)))))"

text \<open>
  The upstream call either answers with the parsed body \<^verbatim>\<open>r.data\<close> or rejects (timeout
  of 15 s, transport failure, error status) with an error given by
  \<^verbatim>\<open>err?.response?.data\<close> (undefined when there was no response) and its message.
\<close>

datatype upstream = Answered json | Rejected json string

definition prediction_failed :: "json \<Rightarrow> window \<Rightarrow> effect list \<Rightarrow> reply" where
  "prediction_failed details m fx =
     \<lparr>response =
        Inr (Response 400 (JObj [(''error'', JStr ''Prediction failed''), (''details'', details)])),
      effects = fx, store = m\<rparr>"

text \<open>
  The handler reads the clock for the broadcast (\<open>now0\<close>) and again inside
  \<open>shouldSend\<close> (\<open>now\<close>). An exception raised anywhere inside the \<^verbatim>\<open>try\<close> block ends
  in the \<^verbatim>\<open>catch\<close> branch, after the effects already made: the band lookup raises
  before the broadcast, the body and the key of the alert are composed after it and
  before \<open>shouldSend\<close>.
\<close>

definition alert_sms ::
  "js_builtins \<Rightarrow> config \<Rightarrow> provider \<Rightarrow> int \<Rightarrow> window \<Rightarrow> json \<Rightarrow> json \<Rightarrow> json \<Rightarrow>
   js_error + effect list \<times> window" where
  "alert_sms js cfg twilio now m req_body to severeRadius =
     and_then (alert_body js req_body severeRadius) (\<lambda>body.
     and_then (alert_key js cfg req_body severeRadius) (\<lambda>key.
     Inr (let (ok, m') = shouldSend now key m
          in if ok then
               (let (r2, fx) = sendImmediateSMS cfg twilio to (JStr body)
                in (Check key now True # SendImmediate to (JStr body) # fx, m'))
             else ([Check key now False], m'))))"

definition predict ::
  "js_builtins \<Rightarrow> config \<Rightarrow> provider \<Rightarrow> int \<Rightarrow> int \<Rightarrow> window \<Rightarrow> json \<Rightarrow> upstream \<Rightarrow> reply" where
  "predict js cfg twilio now0 now m req_body r =
     (case r of
        Rejected response_data msg \<Rightarrow> prediction_failed (js_or response_data (JStr msg)) m []
      | Answered data \<Rightarrow>
          (case summary_severe_radius data of
             Inl (TypeError msg) \<Rightarrow> prediction_failed (JStr msg) m []
           | Inr severe \<Rightarrow>
               (let ev = Emit (red_alert_payload now0 data severe req_body) in
                if truthy (field data ''red_alert'') then
                  (let to = alert_to cfg req_body in
                   if \<not> truthy to then
                     \<lparr>response = Inr (Response 200 data), effects = [ev], store = m\<rparr>
                   else
                     (case sms_severe_radius data of
                        Inl (TypeError msg) \<Rightarrow> prediction_failed (JStr msg) m [ev]
                      | Inr severeRadius \<Rightarrow>
                          (case alert_sms js cfg twilio now m req_body to severeRadius of
                             Inl (TypeError msg) \<Rightarrow> prediction_failed (JStr msg) m [ev]
                           | Inr (fx, m') \<Rightarrow>
                               \<lparr>response = Inr (Response 200 data), effects = ev # fx,
                                store = m'\<rparr>)))
                else \<lparr>response = Inr (Response 200 data), effects = [ev], store = m\<rparr>)))"

text \<open>
  The payloads the data model describes: \<open>overpressure\<close> is absent or a list of bands,
  none of them null. On these the band lookup does not raise.
\<close>

definition bands_well_formed :: "json \<Rightarrow> bool" where
  "bands_well_formed data =
     (case field data ''overpressure'' of
        JUndefined \<Rightarrow> True
      | JNull \<Rightarrow> True
      | JArr bs \<Rightarrow> list_all (\<lambda>b. \<not> nullish b) bs
      | _ \<Rightarrow> False)"

text \<open>Reading the effects of a reply.\<close>

fun is_emit :: "effect \<Rightarrow> bool" where
  "is_emit (Emit ev) = True"
| "is_emit e = False"

fun is_check :: "effect \<Rightarrow> bool" where
  "is_check (Check k t ok) = True"
| "is_check e = False"

fun is_dispatch :: "effect \<Rightarrow> bool" where
  "is_dispatch (SendImmediate to body) = True"
| "is_dispatch (Schedule to body sendAt) = True"
| "is_dispatch e = False"

fun is_provider :: "effect \<Rightarrow> bool" where
  "is_provider (Provider c) = True"
| "is_provider e = False"

fun checked_keys :: "effect list \<Rightarrow> string list" where
  "checked_keys [] = []"
| "checked_keys (Check k t ok # fx) = k # checked_keys fx"
| "checked_keys (e # fx) = checked_keys fx"

section \<open>The conversions on plain decimal numerals\<close>

text \<open>
  To run the model on examples the two parameters are instantiated on the numbers and
  strings that are plain decimal numerals, where the conversions of the language print
  and read the digits as they stand: \<^verbatim>\<open>String(12.3)\<close> is \<^verbatim>\<open>"12.3"\<close>,
  \<^verbatim>\<open>Number("12.3")\<close> is 12.3, \<^verbatim>\<open>Number("")\<close> is 0 and \<^verbatim>\<open>Number("?")\<close> is NaN.
\<close>

fun fraction_digits :: "nat \<Rightarrow> rat \<Rightarrow> string" where
  "fraction_digits 0 r = []"
| "fraction_digits (Suc k) r =
     (if r = 0 then []
      else (let d = \<lfloor>r * 10\<rfloor> in digit d # fraction_digits k (r * 10 - of_int d)))"

definition decimal_number_to_string :: "jsnum \<Rightarrow> string" where
  "decimal_number_to_string x =
     (case x of
        NaN \<Rightarrow> ''NaN''
      | PosInf \<Rightarrow> ''Infinity''
      | NegInf \<Rightarrow> ''-Infinity''
      | Fin q \<Rightarrow>
          (let a = \<bar>q\<bar>; i = \<lfloor>a\<rfloor>; f = a - of_int i
           in (if q < 0 then ''-'' else []) @ decimal (nat i) @
              (if f = 0 then [] else ''.'' @ fraction_digits 17 f)))"

definition is_digit :: "char \<Rightarrow> bool" where
  "is_digit c = (c \<in> set ''0123456789'')"

definition digits_value :: "string \<Rightarrow> nat" where
  "digits_value ds = foldl (\<lambda>n c. 10 * n + (of_char c - 48)) 0 ds"

definition decimal_string_to_number :: "string \<Rightarrow> jsnum" where
  "decimal_string_to_number s =
     (let neg = (s \<noteq> [] \<and> hd s = CHR ''-'');
          r = (if neg then tl s else s);
          ip = takeWhile is_digit r;
          rest = dropWhile is_digit r;
          fp = (case rest of [] \<Rightarrow> [] | c # cs \<Rightarrow> cs)
      in if s = [] then Fin 0
         else if (ip = [] \<and> fp = []) \<or> (rest \<noteq> [] \<and> hd rest \<noteq> CHR ''.'') \<or>
                 \<not> list_all is_digit fp then NaN
         else Fin ((if neg then - 1 else 1) *
                   (of_nat (digits_value ip) + of_nat (digits_value fp) / 10 ^ length fp)))"

definition decimal_js :: js_builtins where
  "decimal_js = \<lparr>number_to_string = decimal_number_to_string,
                 string_to_number = decimal_string_to_number\<rparr>"

section \<open>Example inputs\<close>

text \<open>
  A configured and an unconfigured environment and one with only the default recipient
  set; a prediction request, and one whose \<^verbatim>\<open>notify_phone\<close> is an object with a
  \<^verbatim>\<open>toString\<close> property; an upstream answer with a red alert and a 5 psi band of radius
  12.3 km, the same answer without bands, with \<open>overpressure\<close> a string, and with a 5 psi
  radius that is an object with a \<^verbatim>\<open>toString\<close> property, and an answer without a red
  alert; three manual requests; a provider that creates every message and one that
  rejects every message.
\<close>

definition configured :: config where
  "configured = \<lparr>TWILIO_ACCOUNT_SID = Some ''ACxxxxxxxx'', TWILIO_AUTH_TOKEN = Some ''token'',
     TWILIO_MESSAGING_SID = Some ''MGxxxxxxxx'', TWILIO_MESSAGING_SERVICE_SID = None,
     ALERT_PHONE = Some ''+9193xxxxxxx''\<rparr>"

definition unconfigured :: config where
  "unconfigured = \<lparr>TWILIO_ACCOUNT_SID = None, TWILIO_AUTH_TOKEN = None,
     TWILIO_MESSAGING_SID = None, TWILIO_MESSAGING_SERVICE_SID = None, ALERT_PHONE = None\<rparr>"

definition phone_only :: config where
  "phone_only = \<lparr>TWILIO_ACCOUNT_SID = None, TWILIO_AUTH_TOKEN = None,
     TWILIO_MESSAGING_SID = None, TWILIO_MESSAGING_SERVICE_SID = None,
     ALERT_PHONE = Some ''+9193xxxxxxx''\<rparr>"

definition example_request :: json where
  "example_request = JObj [(''type'', JStr ''asteroid''),
     (''lat'', JNum (Fin (129716 / 10000))), (''lon'', JNum (Fin (775946 / 10000)))]"

definition example_bands :: "json list" where
  "example_bands =
     [JObj [(''threshold'', JStr ''1 psi''), (''radius_km'', JNum (Fin (301 / 10)))],
      JObj [(''threshold'', JStr ''5 psi''), (''radius_km'', JNum (Fin (123 / 10)))]]"

definition example_outcome :: json where
  "example_outcome = JObj [(''hazard_level'', JStr ''severe''), (''red_alert'', JBool True),
     (''energy_megatons'', JNum (Fin 15)), (''overpressure'', JArr example_bands),
     (''mode'', JStr ''airburst'')]"

definition bandless_outcome :: json where
  "bandless_outcome = JObj [(''hazard_level'', JStr ''severe''), (''red_alert'', JBool True),
     (''energy_megatons'', JNum (Fin 15)), (''mode'', JStr ''airburst'')]"

definition listless_outcome :: json where
  "listless_outcome = JObj [(''hazard_level'', JStr ''severe''), (''red_alert'', JBool True),
     (''energy_megatons'', JNum (Fin 15)), (''overpressure'', JStr ''none''),
     (''mode'', JStr ''airburst'')]"

definition shadowed_radius_outcome :: json where
  "shadowed_radius_outcome = JObj [(''hazard_level'', JStr ''severe''), (''red_alert'', JBool True),
     (''energy_megatons'', JNum (Fin 15)),
     (''overpressure'',
        JArr [JObj [(''threshold'', JStr ''5 psi''), (''radius_km'', JObj [(''toString'', JNull)])]]),
     (''mode'', JStr ''airburst'')]"

definition shadowed_phone_request :: json where
  "shadowed_phone_request = JObj [(''type'', JStr ''asteroid''),
     (''lat'', JNum (Fin (129716 / 10000))), (''lon'', JNum (Fin (775946 / 10000))),
     (''notify_phone'', JObj [(''toString'', JNull)])]"

definition calm_outcome :: json where
  "calm_outcome = JObj [(''hazard_level'', JStr ''low''), (''red_alert'', JBool False),
     (''energy_megatons'', JNum (Fin (1 / 100))), (''overpressure'', JArr []),
     (''mode'', JStr ''airburst'')]"

definition hello_request :: json where
  "hello_request = JObj [(''to'', JStr ''+15550100''), (''body'', JStr ''hello'')]"

definition hello_retry :: json where
  "hello_retry = JObj [(''body'', JStr ''hello''), (''to'', JStr ''+15550100''), (''attempt'', JNum (Fin 2))]"

definition hello_at_noon :: json where
  "hello_at_noon = JObj [(''to'', JStr ''+15550100''), (''body'', JStr ''hello''),
     (''sendAt'', JStr ''2030-01-01T12:00:00.000Z'')]"

definition accepting :: provider where
  "accepting c = Created (JStr ''SM0001'')"

definition rejecting :: provider where
  "rejecting c = Threw (JStr ''Authenticate'') ''Error: Authenticate''"

section \<open>Properties of the suppression window\<close>

text \<open>
  C2 (as amended). \<open>shouldSend\<close> compares the clock with the timestamp recorded for the
  key. With a recorded timestamp less than 90 seconds old it answers false and leaves the
  map as it is; with one at least 90 seconds old it records the clock for the key and
  answers true. An absent key is read as the timestamp 0 (\<^verbatim>\<open>get(key) || 0\<close>), not as
  an infinitely old one: it is admitted, and the clock recorded, exactly when the clock
  itself reads at least 90000 ms, and suppressed with the map unchanged on a clock that
  reads less.
\<close>

theorem shouldSend_admit_or_suppress:
  "(m key = Some t \<and> now - t < 90 * 1000 \<longrightarrow> shouldSend now key m = (False, m)) \<and>
   (m key = Some t \<and> \<not> now - t < 90 * 1000 \<longrightarrow> shouldSend now key m = (True, m(key \<mapsto> now))) \<and>
   (m key = None \<and> \<not> now < 90 * 1000 \<longrightarrow> shouldSend now key m = (True, m(key \<mapsto> now))) \<and>
   (m key = None \<and> now < 90 * 1000 \<longrightarrow> shouldSend now key m = (False, m))"
  by (simp add: shouldSend_def DEBOUNCE_MS_def)

text \<open>
  One instance for each of the four cases: a timestamp 50 s old, one 90 s old, an absent
  key on a present-day clock, and an absent key one second after the epoch.
\<close>

theorem shouldSend_admit_or_suppress_witness:
  "shouldSend 1700000050000 ''send|+15550100|hello'' (map_of [(''send|+15550100|hello'', 1700000000000)])
     = (False, map_of [(''send|+15550100|hello'', 1700000000000)]) \<and>
   shouldSend 1700000090000 ''send|+15550100|hello'' (map_of [(''send|+15550100|hello'', 1700000000000)])
     = (True, (map_of [(''send|+15550100|hello'', 1700000000000)])(''send|+15550100|hello'' \<mapsto> 1700000090000)) \<and>
   shouldSend 1700000000000 ''send|+15550100|hello'' (map_of [])
     = (True, (map_of [])(''send|+15550100|hello'' \<mapsto> 1700000000000)) \<and>
   shouldSend 1000 ''send|+15550100|hello'' (map_of []) = (False, map_of [])"
  using shouldSend_admit_or_suppress [where m = "map_of [(''send|+15550100|hello'', 1700000000000)]"
      and key = "''send|+15550100|hello''" and t = 1700000000000 and now = 1700000050000]
    shouldSend_admit_or_suppress [where m = "map_of [(''send|+15550100|hello'', 1700000000000)]"
      and key = "''send|+15550100|hello''" and t = 1700000000000 and now = 1700000090000]
    shouldSend_admit_or_suppress [where m = "map_of []"
      and key = "''send|+15550100|hello''" and now = 1700000000000]
    shouldSend_admit_or_suppress [where m = "map_of []"
      and key = "''send|+15550100|hello''" and now = 1000]
  by simp

text \<open>
  The claim as written (an absent key counts as infinitely long elapsed, so it is always
  admitted) fails on an empty map when the clock reads 1000 ms: the key is absent and the
  call answers false.
\<close>

theorem shouldSend_absent_key_counterexample:
  "(map_of [] :: window) ''send|+15550100|hello'' = None \<and>
   shouldSend 1000 ''send|+15550100|hello'' (map_of []) = (False, map_of [])"
  by (simp add: shouldSend_def DEBOUNCE_MS_def)

section \<open>Properties of the Twilio helpers\<close>

text \<open>
  C8. \<open>sendImmediateSMS\<close> and \<open>scheduleSMS\<close> check, in this order, that Twilio is
  configured (a client was built and a messaging service SID is set), that the recipient
  is present and that the body is present. Each failed check returns its own failed
  result, the three results differ from one another, and no call of the provider is
  recorded; only when all three pass is the provider called, once.
\<close>

theorem helpers_check_preconditions_in_order:
  "(\<not> requireTwilio cfg \<longrightarrow>
      sendImmediateSMS cfg twilio to body = (Failed (JStr ''Twilio not configured''), []) \<and>
      scheduleSMS cfg twilio to body sendAtISO = (Failed (JStr ''Twilio not configured''), [])) \<and>
   (requireTwilio cfg \<and> \<not> truthy to \<longrightarrow>
      sendImmediateSMS cfg twilio to body = (Failed (JStr ''Missing \"to\" number''), []) \<and>
      scheduleSMS cfg twilio to body sendAtISO = (Failed (JStr ''Missing \"to\" number''), [])) \<and>
   (requireTwilio cfg \<and> truthy to \<and> \<not> truthy body \<longrightarrow>
      sendImmediateSMS cfg twilio to body = (Failed (JStr ''Missing \"body\"''), []) \<and>
      scheduleSMS cfg twilio to body sendAtISO = (Failed (JStr ''Missing \"body\"''), [])) \<and>
   (requireTwilio cfg \<and> truthy to \<and> truthy body \<longrightarrow>
      snd (sendImmediateSMS cfg twilio to body) = [Provider (Create to body (TWILIO_MSID cfg))] \<and>
      snd (scheduleSMS cfg twilio to body sendAtISO) =
        [Provider (CreateFixed to body (TWILIO_MSID cfg) sendAtISO)]) \<and>
   requireTwilio cfg = (twilioClient cfg \<and> truthy (TWILIO_MSID cfg)) \<and>
   distinct [Failed (JStr ''Twilio not configured''), Failed (JStr ''Missing \"to\" number''),
             Failed (JStr ''Missing \"body\"'')]"
  by (simp add: sendImmediateSMS_def scheduleSMS_def requireTwilio_def Let_def
           split: provider_outcome.splits)

lemma requireTwilio_examples:
  "requireTwilio configured" "\<not> requireTwilio unconfigured"
  by (simp_all add: requireTwilio_def twilioClient_def TWILIO_MSID_def env_def js_or_def
        configured_def unconfigured_def)

text \<open>
  The four cases at concrete inputs: nothing configured; configured without a recipient;
  configured with a recipient and an empty body; configured with both.
\<close>

theorem helpers_check_preconditions_in_order_witness:
  "(\<not> requireTwilio unconfigured \<and>
      sendImmediateSMS unconfigured accepting JUndefined (JStr []) =
        (Failed (JStr ''Twilio not configured''), []) \<and>
      scheduleSMS unconfigured accepting JUndefined (JStr []) (JStr ''2030-01-01T00:00:00.000Z'') =
        (Failed (JStr ''Twilio not configured''), [])) \<and>
   (requireTwilio configured \<and> \<not> truthy JUndefined \<and>
      sendImmediateSMS configured accepting JUndefined (JStr []) =
        (Failed (JStr ''Missing \"to\" number''), []) \<and>
      scheduleSMS configured accepting JUndefined (JStr []) (JStr ''2030-01-01T00:00:00.000Z'') =
        (Failed (JStr ''Missing \"to\" number''), [])) \<and>
   (truthy (JStr ''+9193xxxxxxx'') \<and> \<not> truthy (JStr []) \<and>
      sendImmediateSMS configured accepting (JStr ''+9193xxxxxxx'') (JStr []) =
        (Failed (JStr ''Missing \"body\"''), []) \<and>
      scheduleSMS configured accepting (JStr ''+9193xxxxxxx'') (JStr [])
          (JStr ''2030-01-01T00:00:00.000Z'') =
        (Failed (JStr ''Missing \"body\"''), [])) \<and>
   (truthy (JStr ''hello'') \<and>
      snd (sendImmediateSMS configured accepting (JStr ''+9193xxxxxxx'') (JStr ''hello'')) =
        [Provider (Create (JStr ''+9193xxxxxxx'') (JStr ''hello'') (TWILIO_MSID configured))] \<and>
      snd (scheduleSMS configured accepting (JStr ''+9193xxxxxxx'') (JStr ''hello'')
          (JStr ''2030-01-01T00:00:00.000Z'')) =
        [Provider (CreateFixed (JStr ''+9193xxxxxxx'') (JStr ''hello'') (TWILIO_MSID configured)
           (JStr ''2030-01-01T00:00:00.000Z''))])"
  using requireTwilio_examples
    helpers_check_preconditions_in_order [where cfg = unconfigured and twilio = accepting
      and to = JUndefined and body = "JStr []" and sendAtISO = "JStr ''2030-01-01T00:00:00.000Z''"]
    helpers_check_preconditions_in_order [where cfg = configured and twilio = accepting
      and to = JUndefined and body = "JStr []" and sendAtISO = "JStr ''2030-01-01T00:00:00.000Z''"]
    helpers_check_preconditions_in_order [where cfg = configured and twilio = accepting
      and to = "JStr ''+9193xxxxxxx''" and body = "JStr []"
      and sendAtISO = "JStr ''2030-01-01T00:00:00.000Z''"]
    helpers_check_preconditions_in_order [where cfg = configured and twilio = accepting
      and to = "JStr ''+9193xxxxxxx''" and body = "JStr ''hello''"
      and sendAtISO = "JStr ''2030-01-01T00:00:00.000Z''"]
  by simp

section \<open>Properties of the prediction handler\<close>

lemma find_5psi_well_formed:
  "list_all (\<lambda>b. \<not> nullish b) bs \<Longrightarrow> \<exists>b. find_5psi bs = Inr b"
  by (induction bs) auto

lemma band_radius_well_formed:
  "bands_well_formed data \<Longrightarrow> \<exists>v. band_radius data = Inr v"
  using find_5psi_well_formed
  by (fastforce simp: bands_well_formed_def band_radius_def split: json.splits sum.splits)

lemma example_outcome_well_formed: "bands_well_formed example_outcome"
  by (simp add: bands_well_formed_def example_outcome_def example_bands_def nullish_def)

lemma calm_outcome_well_formed: "bands_well_formed calm_outcome"
  by (simp add: bands_well_formed_def calm_outcome_def)

text \<open>
  C9. When the upstream call rejects (timeout, transport failure, error status), the
  handler makes no effect at all: nothing is broadcast, \<open>shouldSend\<close> is not called, no
  helper and no provider is called, and the suppression map is left as it was. The caller
  gets status 400 with the error envelope, whose details are the body of the upstream
  response when there is one (a truthy one), and the message of the error otherwise.
\<close>

theorem predict_upstream_failure:
  "predict js cfg twilio now0 now m req_body (Rejected response_data msg) =
     \<lparr>response = Inr (Response 400 (JObj [(''error'', JStr ''Prediction failed''),
         (''details'', if truthy response_data then response_data else JStr msg)])),
      effects = [], store = m\<rparr>"
  by (simp add: predict_def prediction_failed_def js_or_def)

text \<open>A timeout without a response, and an upstream answer of status 422 with a body.\<close>

theorem predict_upstream_failure_witness:
  "predict decimal_js configured accepting 1700000000000 1700000000000 (map_of [])
       example_request (Rejected JUndefined ''timeout of 15000ms exceeded'') =
     \<lparr>response = Inr (Response 400 (JObj [(''error'', JStr ''Prediction failed''),
         (''details'', JStr ''timeout of 15000ms exceeded'')])),
      effects = [], store = map_of []\<rparr> \<and>
   predict decimal_js configured accepting 1700000000000 1700000000000 (map_of [])
       example_request
       (Rejected (JObj [(''detail'', JStr ''bad input'')]) ''Request failed with status code 422'') =
     \<lparr>response = Inr (Response 400 (JObj [(''error'', JStr ''Prediction failed''),
         (''details'', JObj [(''detail'', JStr ''bad input'')])])),
      effects = [], store = map_of []\<rparr>"
  using predict_upstream_failure [where js = decimal_js and cfg = configured
      and twilio = accepting and ?now0.0 = 1700000000000 and now = 1700000000000
      and m = "map_of []" and req_body = example_request and response_data = JUndefined
      and msg = "''timeout of 15000ms exceeded''"]
    predict_upstream_failure [where js = decimal_js and cfg = configured
      and twilio = accepting and ?now0.0 = 1700000000000 and now = 1700000000000
      and m = "map_of []" and req_body = example_request
      and response_data = "JObj [(''detail'', JStr ''bad input'')]"
      and msg = "''Request failed with status code 422''"]
  by simp

text \<open>The handler on an upstream answer, by the outcome of the band lookup.\<close>

lemma predict_lookup_raises:
  "band_radius data = Inl (TypeError msg) \<Longrightarrow>
   predict js cfg twilio now0 now m req_body (Answered data) = prediction_failed (JStr msg) m []"
  by (simp add: predict_def summary_severe_radius_def)

lemma predict_lookup_returns:
  "band_radius data = Inr v \<Longrightarrow>
   predict js cfg twilio now0 now m req_body (Answered data) =
     (if truthy (field data ''red_alert'') \<and> truthy (alert_to cfg req_body) then
        (case alert_sms js cfg twilio now m req_body (alert_to cfg req_body)
                (js_coalesce v (JStr ''?'')) of
           Inl (TypeError msg) \<Rightarrow>
             prediction_failed (JStr msg) m
               [Emit (red_alert_payload now0 data (js_coalesce v JNull) req_body)]
         | Inr (fx, m') \<Rightarrow>
             \<lparr>response = Inr (Response 200 data),
              effects = Emit (red_alert_payload now0 data (js_coalesce v JNull) req_body) # fx,
              store = m'\<rparr>)
      else \<lparr>response = Inr (Response 200 data),
            effects = [Emit (red_alert_payload now0 data (js_coalesce v JNull) req_body)],
            store = m\<rparr>)"
  by (simp add: predict_def summary_severe_radius_def sms_severe_radius_def Let_def)

lemma alert_sms_raises:
  "alert_body js req_body severeRadius = Inl e \<Longrightarrow>
   alert_sms js cfg twilio now m req_body to severeRadius = Inl e"
  "alert_body js req_body severeRadius = Inr body \<Longrightarrow>
   alert_key js cfg req_body severeRadius = Inl e \<Longrightarrow>
   alert_sms js cfg twilio now m req_body to severeRadius = Inl e"
  by (simp_all add: alert_sms_def and_then_def)

lemma alert_sms_returns:
  "alert_body js req_body severeRadius = Inr body \<Longrightarrow>
   alert_key js cfg req_body severeRadius = Inr key \<Longrightarrow>
   alert_sms js cfg twilio now m req_body to severeRadius =
     Inr (if fst (shouldSend now key m)
          then (Check key now True # SendImmediate to (JStr body) #
                  snd (sendImmediateSMS cfg twilio to (JStr body)),
                snd (shouldSend now key m))
          else ([Check key now False], snd (shouldSend now key m)))"
  by (simp add: alert_sms_def and_then_def Let_def case_prod_beta)

lemma alert_sms_cases:
  "(\<exists>e. alert_sms js cfg twilio now m req_body to severeRadius = Inl e \<and>
        (alert_body js req_body severeRadius = Inl e \<or>
         alert_key js cfg req_body severeRadius = Inl e)) \<or>
   (\<exists>body key. alert_body js req_body severeRadius = Inr body \<and>
        alert_key js cfg req_body severeRadius = Inr key)"
  by (cases "alert_body js req_body severeRadius"; cases "alert_key js cfg req_body severeRadius")
     (auto simp: alert_sms_raises)

lemma predict_response:
  "response (predict js cfg twilio now0 now m req_body (Answered data)) =
     (case band_radius data of
        Inl (TypeError msg) \<Rightarrow>
          Inr (Response 400 (JObj [(''error'', JStr ''Prediction failed''), (''details'', JStr msg)]))
      | Inr v \<Rightarrow>
          if truthy (field data ''red_alert'') \<and> truthy (alert_to cfg req_body) then
            (case alert_body js req_body (js_coalesce v (JStr ''?'')) of
               Inl (TypeError msg) \<Rightarrow>
                 Inr (Response 400 (JObj [(''error'', JStr ''Prediction failed''),
                        (''details'', JStr msg)]))
             | Inr body \<Rightarrow>
                 (case alert_key js cfg req_body (js_coalesce v (JStr ''?'')) of
                    Inl (TypeError msg) \<Rightarrow>
                      Inr (Response 400 (JObj [(''error'', JStr ''Prediction failed''),
                             (''details'', JStr msg)]))
                  | Inr key \<Rightarrow> Inr (Response 200 data)))
          else Inr (Response 200 data))"
proof (cases "band_radius data")
  case (Inl e)
  then show ?thesis
    by (cases e) (simp add: predict_lookup_raises prediction_failed_def)
next
  case (Inr v)
  show ?thesis
    by (simp add: predict_lookup_returns [OF Inr] Inr alert_sms_def and_then_def
          prediction_failed_def Let_def case_prod_beta split: sum.splits js_error.splits)
qed

text \<open>
  C6 (as amended). When the upstream call answers with a payload of the data model (its
  \<open>overpressure\<close> absent or a list of bands) and the body and the key of the alert can be
  composed, the response to the caller is status 200 with the answer itself, whatever
  the provider, the suppression map and the clock are: the alert may be suppressed, the
  message created or rejected. The same holds, composed or not, when the SMS leg is not
  entered (no red alert, or no recipient). When the body or the key of the alert raises,
  or the band lookup does, the response is status 400 with the error envelope that
  carries the message of the error. For every request and answer the response is the
  same for every provider, suppression map and clock.
\<close>

theorem predict_returns_outcome:
  "(bands_well_formed data \<and>
    \<not> (truthy (field data ''red_alert'') \<and> truthy (alert_to cfg req_body)) \<longrightarrow>
      response (predict js cfg twilio now0 now m req_body (Answered data)) =
        Inr (Response 200 data)) \<and>
   (bands_well_formed data \<and> sms_severe_radius data = Inr severeRadius \<and>
    alert_body js req_body severeRadius = Inr body \<and>
    alert_key js cfg req_body severeRadius = Inr key \<longrightarrow>
      response (predict js cfg twilio now0 now m req_body (Answered data)) =
        Inr (Response 200 data)) \<and>
   (truthy (field data ''red_alert'') \<and> truthy (alert_to cfg req_body) \<and>
    sms_severe_radius data = Inr severeRadius \<and>
    (alert_body js req_body severeRadius = Inl (TypeError msg) \<or>
     alert_body js req_body severeRadius = Inr body \<and>
     alert_key js cfg req_body severeRadius = Inl (TypeError msg)) \<longrightarrow>
      response (predict js cfg twilio now0 now m req_body (Answered data)) =
        Inr (Response 400 (JObj [(''error'', JStr ''Prediction failed''),
               (''details'', JStr msg)]))) \<and>
   (band_radius data = Inl (TypeError msg) \<longrightarrow>
      response (predict js cfg twilio now0 now m req_body (Answered data)) =
        Inr (Response 400 (JObj [(''error'', JStr ''Prediction failed''),
               (''details'', JStr msg)]))) \<and>
   response (predict js cfg twilio' now0' now' m' req_body (Answered data)) =
     response (predict js cfg twilio now0 now m req_body (Answered data))"
proof -
  have a: "bands_well_formed data \<and>
    \<not> (truthy (field data ''red_alert'') \<and> truthy (alert_to cfg req_body)) \<longrightarrow>
      response (predict js cfg twilio now0 now m req_body (Answered data)) =
        Inr (Response 200 data)"
    using band_radius_well_formed [of data]
    by (auto simp: predict_response)
  have b: "bands_well_formed data \<and> sms_severe_radius data = Inr severeRadius \<and>
    alert_body js req_body severeRadius = Inr body \<and>
    alert_key js cfg req_body severeRadius = Inr key \<longrightarrow>
      response (predict js cfg twilio now0 now m req_body (Answered data)) =
        Inr (Response 200 data)"
    using band_radius_well_formed [of data]
    by (auto simp: predict_response sms_severe_radius_def)
  have c: "truthy (field data ''red_alert'') \<and> truthy (alert_to cfg req_body) \<and>
    sms_severe_radius data = Inr severeRadius \<and>
    (alert_body js req_body severeRadius = Inl (TypeError msg) \<or>
     alert_body js req_body severeRadius = Inr body \<and>
     alert_key js cfg req_body severeRadius = Inl (TypeError msg)) \<longrightarrow>
      response (predict js cfg twilio now0 now m req_body (Answered data)) =
        Inr (Response 400 (JObj [(''error'', JStr ''Prediction failed''),
               (''details'', JStr msg)]))"
    by (auto simp: predict_response sms_severe_radius_def split: sum.splits)
  have d: "band_radius data = Inl (TypeError msg) \<longrightarrow>
      response (predict js cfg twilio now0 now m req_body (Answered data)) =
        Inr (Response 400 (JObj [(''error'', JStr ''Prediction failed''),
               (''details'', JStr msg)]))"
    by (simp add: predict_response)
  have e: "response (predict js cfg twilio' now0' now' m' req_body (Answered data)) =
     response (predict js cfg twilio now0 now m req_body (Answered data))"
    by (simp add: predict_response)
  show ?thesis
    using a b c d e by blast
qed

lemma example_alert_composed:
  "alert_body decimal_js example_request (JNum (Fin (123 / 10))) =
     Inr (siren_mark @ '' EVACUATE NOW '' @ dash_mark @ '' area near 12.972,77.595. '' @
          ''Move beyond 12km from impact point. Severe zone '' @ approx_mark @ '' 12.3km. '' @
          ''If coastal, go inland/uphill. Help: 104 '' @ dash_mark @ '' Disaster Mgmt Dept'')"
  "alert_key decimal_js configured example_request (JNum (Fin (123 / 10))) =
     Inr ''alert|+9193xxxxxxx|12.9716|77.5946|12.3''"
  by code_simp+

lemma example_severe_radius:
  "sms_severe_radius example_outcome = Inr (JNum (Fin (123 / 10)))"
  by (simp add: sms_severe_radius_def band_radius_def example_outcome_def example_bands_def
        nullish_def js_coalesce_def)

lemma unconfigured_no_recipient:
  "\<not> truthy (alert_to unconfigured example_request)"
  by (simp add: alert_to_def unconfigured_def DEFAULT_ALERT_TO_def env_def js_or_def
        example_request_def)

text \<open>
  The example answer on the four paths: no recipient resolvable, the alert suppressed by
  an entry one second old, the message created, the message rejected by the provider.
\<close>

theorem predict_returns_outcome_witness:
  "bands_well_formed example_outcome \<and>
   \<not> (truthy (field example_outcome ''red_alert'') \<and>
      truthy (alert_to unconfigured example_request)) \<and>
   response (predict decimal_js unconfigured accepting 1700000000000 1700000000000 (map_of [])
       example_request (Answered example_outcome)) = Inr (Response 200 example_outcome) \<and>
   sms_severe_radius example_outcome = Inr (JNum (Fin (123 / 10))) \<and>
   alert_key decimal_js configured example_request (JNum (Fin (123 / 10))) =
     Inr ''alert|+9193xxxxxxx|12.9716|77.5946|12.3'' \<and>
   response (predict decimal_js configured accepting 1700000000000 1700000000000
       (map_of [(''alert|+9193xxxxxxx|12.9716|77.5946|12.3'', 1699999999000)])
       example_request (Answered example_outcome)) = Inr (Response 200 example_outcome) \<and>
   response (predict decimal_js configured accepting 1700000000000 1700000000000 (map_of [])
       example_request (Answered example_outcome)) = Inr (Response 200 example_outcome) \<and>
   response (predict decimal_js configured rejecting 1700000000000 1700000000000 (map_of [])
       example_request (Answered example_outcome)) = Inr (Response 200 example_outcome) \<and>
   truthy (field example_outcome ''red_alert'') \<and>
   truthy (alert_to configured shadowed_phone_request) \<and>
   alert_body decimal_js shadowed_phone_request (JNum (Fin (123 / 10))) =
     Inr (siren_mark @ '' EVACUATE NOW '' @ dash_mark @ '' area near 12.972,77.595. '' @
          ''Move beyond 12km from impact point. Severe zone '' @ approx_mark @ '' 12.3km. '' @
          ''If coastal, go inland/uphill. Help: 104 '' @ dash_mark @ '' Disaster Mgmt Dept'') \<and>
   alert_key decimal_js configured shadowed_phone_request (JNum (Fin (123 / 10))) =
     Inl (TypeError ''Cannot convert object to primitive value'') \<and>
   response (predict decimal_js configured accepting 1700000000000 1700000000000 (map_of [])
       shadowed_phone_request (Answered example_outcome)) =
     Inr (Response 400 (JObj [(''error'', JStr ''Prediction failed''),
            (''details'', JStr ''Cannot convert object to primitive value'')])) \<and>
   band_radius listless_outcome =
     Inl (TypeError ''data?.overpressure?.find is not a function'') \<and>
   response (predict decimal_js configured accepting 1700000000000 1700000000000 (map_of [])
       example_request (Answered listless_outcome)) =
     Inr (Response 400 (JObj [(''error'', JStr ''Prediction failed''),
            (''details'', JStr ''data?.overpressure?.find is not a function'')]))"
proof -
  have r: "truthy (field example_outcome ''red_alert'')"
    by (simp add: example_outcome_def)
  have t: "truthy (alert_to configured shadowed_phone_request)"
    by (simp add: alert_to_def js_or_def shadowed_phone_request_def)
  have x: "alert_body decimal_js shadowed_phone_request (JNum (Fin (123 / 10))) =
     Inr (siren_mark @ '' EVACUATE NOW '' @ dash_mark @ '' area near 12.972,77.595. '' @
          ''Move beyond 12km from impact point. Severe zone '' @ approx_mark @ '' 12.3km. '' @
          ''If coastal, go inland/uphill. Help: 104 '' @ dash_mark @ '' Disaster Mgmt Dept'')"
    by code_simp
  have y: "alert_key decimal_js configured shadowed_phone_request (JNum (Fin (123 / 10))) =
     Inl (TypeError ''Cannot convert object to primitive value'')"
    by code_simp
  have l: "band_radius listless_outcome =
     Inl (TypeError ''data?.overpressure?.find is not a function'')"
    by (simp add: band_radius_def listless_outcome_def)
  have c: "response (predict decimal_js configured accepting 1700000000000 1700000000000
       (map_of []) shadowed_phone_request (Answered example_outcome)) =
     Inr (Response 400 (JObj [(''error'', JStr ''Prediction failed''),
            (''details'', JStr ''Cannot convert object to primitive value'')]))"
    using predict_returns_outcome [where data = example_outcome and cfg = configured
        and req_body = shadowed_phone_request and js = decimal_js
        and severeRadius = "JNum (Fin (123 / 10))"
        and msg = "''Cannot convert object to primitive value''"
        and twilio = accepting and ?now0.0 = 1700000000000 and now = 1700000000000
        and m = "map_of []"]
      r t x y example_severe_radius by blast
  have d: "response (predict decimal_js configured accepting 1700000000000 1700000000000
       (map_of []) example_request (Answered listless_outcome)) =
     Inr (Response 400 (JObj [(''error'', JStr ''Prediction failed''),
            (''details'', JStr ''data?.overpressure?.find is not a function'')]))"
    using predict_returns_outcome [where data = listless_outcome and cfg = configured
        and req_body = example_request and js = decimal_js
        and msg = "''data?.overpressure?.find is not a function''"
        and twilio = accepting and ?now0.0 = 1700000000000 and now = 1700000000000
        and m = "map_of []"]
      l by blast
  have a: "response (predict decimal_js unconfigured accepting 1700000000000 1700000000000
       (map_of []) example_request (Answered example_outcome)) = Inr (Response 200 example_outcome)"
    using predict_returns_outcome [where data = example_outcome and cfg = unconfigured
        and req_body = example_request]
      example_outcome_well_formed unconfigured_no_recipient by blast
  have b: "response (predict decimal_js configured twilio now0 now m
       example_request (Answered example_outcome)) = Inr (Response 200 example_outcome)"
    for twilio now0 now m
    using predict_returns_outcome [where data = example_outcome and cfg = configured
        and req_body = example_request and js = decimal_js
        and severeRadius = "JNum (Fin (123 / 10))"]
      example_outcome_well_formed example_severe_radius example_alert_composed by blast
  show ?thesis
    using a b c d r t x y l example_outcome_well_formed unconfigured_no_recipient
      example_severe_radius example_alert_composed(2)
    by blast
qed

text \<open>
  The claim as written (the response is the unmodified outcome on all paths of a request
  whose upstream call succeeds) fails for the example answer when the request names an
  object with a \<^verbatim>\<open>toString\<close> property as \<^verbatim>\<open>notify_phone\<close>: the event is broadcast,
  the key of the alert cannot be composed, and the caller gets status 400.
\<close>

theorem predict_alert_raises_counterexample:
  "bands_well_formed example_outcome \<and>
   response (predict decimal_js configured accepting 1700000000000 1700000000002 (map_of [])
       shadowed_phone_request (Answered example_outcome)) =
     Inr (Response 400 (JObj [(''error'', JStr ''Prediction failed''),
            (''details'', JStr ''Cannot convert object to primitive value'')])) \<and>
   effects (predict decimal_js configured accepting 1700000000000 1700000000002 (map_of [])
       shadowed_phone_request (Answered example_outcome)) =
     [Emit (red_alert_payload 1700000000000 example_outcome (JNum (Fin (123 / 10)))
        shadowed_phone_request)]"
proof -
  have r: "response (predict decimal_js configured accepting 1700000000000 1700000000002
       (map_of []) shadowed_phone_request (Answered example_outcome)) =
     Inr (Response 400 (JObj [(''error'', JStr ''Prediction failed''),
            (''details'', JStr ''Cannot convert object to primitive value'')]))"
    by code_simp
  have e: "effects (predict decimal_js configured accepting 1700000000000 1700000000002
       (map_of []) shadowed_phone_request (Answered example_outcome)) =
     [Emit (red_alert_payload 1700000000000 example_outcome (JNum (Fin (123 / 10)))
        shadowed_phone_request)]"
    by code_simp
  show ?thesis using r e example_outcome_well_formed by blast
qed

lemma alert_sms_effects:
  "alert_sms js cfg twilio now m req_body to severeRadius = Inr (fx, m') \<Longrightarrow>
   \<exists>body key tail.
     alert_body js req_body severeRadius = Inr body \<and>
     alert_key js cfg req_body severeRadius = Inr key \<and>
     fx = Check key now (fst (shouldSend now key m)) # tail \<and>
     list_all (\<lambda>e. \<not> is_emit e \<and> \<not> is_check e) tail"
  by (auto simp: alert_sms_def and_then_def sendImmediateSMS_def Let_def case_prod_beta
           split: sum.splits if_splits provider_outcome.splits)

text \<open>
  C5 (as amended). When the upstream call answers with a payload of the data model (its
  \<open>overpressure\<close> absent or a list of bands, none of them null), the handler broadcasts
  exactly one event, whatever the red-alert flag is, and the broadcast is its first
  effect: the call of \<open>shouldSend\<close>, made only for a red alert with a recipient and a
  composed body and key, comes after it, and nothing is broadcast after that. When the
  band lookup raises, as it does on an \<open>overpressure\<close> that is not a list, the handler
  has no effect at all. In no case does a suppression check come before the broadcast.
\<close>

theorem predict_broadcasts_once_before_check:
  "(bands_well_formed data \<longrightarrow>
      (\<exists>severe rest.
         summary_severe_radius data = Inr severe \<and>
         effects (predict js cfg twilio now0 now m req_body (Answered data)) =
           Emit (red_alert_payload now0 data severe req_body) # rest \<and>
         list_all (\<lambda>e. \<not> is_emit e) rest \<and>
         (rest = [] \<or>
          (\<exists>key ok tail. rest = Check key now ok # tail \<and>
             list_all (\<lambda>e. \<not> is_check e) tail)) \<and>
         (truthy (field data ''red_alert'') \<and> truthy (alert_to cfg req_body) \<and>
          sms_severe_radius data = Inr severeRadius \<and>
          alert_body js req_body severeRadius = Inr body \<and>
          alert_key js cfg req_body severeRadius = Inr key \<longrightarrow>
            (\<exists>tail. rest = Check key now (fst (shouldSend now key m)) # tail)) \<and>
         (\<not> (truthy (field data ''red_alert'') \<and> truthy (alert_to cfg req_body)) \<longrightarrow>
            rest = []))) \<and>
   (band_radius data = Inl e \<longrightarrow>
      effects (predict js cfg twilio now0 now m req_body (Answered data)) = []) \<and>
   (effects (predict js cfg twilio now0 now m req_body (Answered data)) = [] \<or>
    (\<exists>payload rest.
       effects (predict js cfg twilio now0 now m req_body (Answered data)) = Emit payload # rest \<and>
       list_all (\<lambda>e. \<not> is_emit e) rest))"
proof (cases "band_radius data")
  case (Inl e')
  then have "effects (predict js cfg twilio now0 now m req_body (Answered data)) = []"
    by (cases e') (simp add: predict_lookup_raises prediction_failed_def)
  moreover have "\<not> bands_well_formed data"
    using Inl band_radius_well_formed [of data] by auto
  ultimately show ?thesis by simp
next
  case (Inr v)
  let ?sr = "js_coalesce v (JStr ''?'')"
  let ?ev = "Emit (red_alert_payload now0 data (js_coalesce v JNull) req_body)"
  let ?fx = "effects (predict js cfg twilio now0 now m req_body (Answered data))"
  have s: "summary_severe_radius data = Inr (js_coalesce v JNull)"
    "sms_severe_radius data = Inr ?sr"
    by (simp_all add: summary_severe_radius_def sms_severe_radius_def Inr)
  show ?thesis
  proof (cases "truthy (field data ''red_alert'') \<and> truthy (alert_to cfg req_body)")
    case False
    then have "?fx = [?ev]"
      by (auto simp: predict_lookup_returns [OF Inr])
    then show ?thesis
      using s False Inr by auto
  next
    case True
    show ?thesis
    proof (cases "alert_sms js cfg twilio now m req_body (alert_to cfg req_body) ?sr")
      case (Inl e')
      then have fx: "?fx = [?ev]"
        using True by (cases e') (simp add: predict_lookup_returns [OF Inr] prediction_failed_def)
      have "\<not> (alert_body js req_body ?sr = Inr body \<and> alert_key js cfg req_body ?sr = Inr key)"
        using Inl alert_sms_returns [of js req_body ?sr body cfg key twilio now m "alert_to cfg req_body"]
        by auto
      then show ?thesis
        using s fx True Inr by auto
    next
      case (Inr p)
      obtain fx m' where p: "p = (fx, m')" by (cases p)
      obtain body' key' tail where t:
        "alert_body js req_body ?sr = Inr body'" "alert_key js cfg req_body ?sr = Inr key'"
        "fx = Check key' now (fst (shouldSend now key' m)) # tail"
        "list_all (\<lambda>e. \<not> is_emit e \<and> \<not> is_check e) tail"
        using alert_sms_effects [of js cfg twilio now m req_body "alert_to cfg req_body" ?sr fx m']
          Inr p by blast
      have tail: "list_all (\<lambda>e. \<not> is_emit e) tail" "list_all (\<lambda>e. \<not> is_check e) tail"
        using t(4) by (simp_all add: list_all_iff)
      have fx: "?fx = ?ev # fx"
        using True Inr p \<open>band_radius data = Inr v\<close>
        by (simp add: predict_lookup_returns)
      show ?thesis
        using s fx t(1-3) tail True \<open>band_radius data = Inr v\<close> by auto
    qed
  qed
qed

lemma bandless_alert_composed:
  "alert_body decimal_js example_request (JStr ''?'') =
     Inr (siren_mark @ '' EVACUATE NOW '' @ dash_mark @ '' area near 12.972,77.595. '' @
          ''Move beyond 6km from impact point. Severe zone '' @ approx_mark @ '' ?km. '' @
          ''If coastal, go inland/uphill. Help: 104 '' @ dash_mark @ '' Disaster Mgmt Dept'')"
  "alert_key decimal_js configured example_request (JStr ''?'') =
     Inr ''alert|+9193xxxxxxx|12.9716|77.5946|?''"
  by code_simp+

lemma example_alert:
  "truthy (field example_outcome ''red_alert'')"
  "truthy (field bandless_outcome ''red_alert'')"
  "alert_to configured example_request = JStr ''+9193xxxxxxx''"
  "field example_outcome ''overpressure'' = JArr example_bands"
  "list_all (\<lambda>b. \<not> nullish b) example_bands"
  "\<not> truthy (field calm_outcome ''red_alert'')"
  by (simp_all add: example_outcome_def bandless_outcome_def calm_outcome_def alert_to_def
        configured_def DEFAULT_ALERT_TO_def env_def js_or_def example_request_def
        example_bands_def nullish_def)

text \<open>
  The example answer, a red alert with the default recipient configured, and an answer
  without a red alert.
\<close>

theorem predict_broadcasts_once_before_check_witness:
  "bands_well_formed example_outcome \<and>
   truthy (field example_outcome ''red_alert'') \<and>
   truthy (alert_to configured example_request) \<and>
   sms_severe_radius example_outcome = Inr (JNum (Fin (123 / 10))) \<and>
   alert_key decimal_js configured example_request (JNum (Fin (123 / 10))) =
     Inr ''alert|+9193xxxxxxx|12.9716|77.5946|12.3'' \<and>
   (\<exists>severe tail.
      summary_severe_radius example_outcome = Inr severe \<and>
      effects (predict decimal_js configured accepting 1700000000000 1700000000002 (map_of [])
         example_request (Answered example_outcome)) =
        Emit (red_alert_payload 1700000000000 example_outcome severe example_request) #
        Check ''alert|+9193xxxxxxx|12.9716|77.5946|12.3'' 1700000000002
          (fst (shouldSend 1700000000002 ''alert|+9193xxxxxxx|12.9716|77.5946|12.3'' (map_of []))) #
        tail \<and>
      list_all (\<lambda>e. \<not> is_emit e) tail) \<and>
   bands_well_formed calm_outcome \<and>
   \<not> (truthy (field calm_outcome ''red_alert'') \<and> truthy (alert_to configured example_request)) \<and>
   (\<exists>severe.
      summary_severe_radius calm_outcome = Inr severe \<and>
      effects (predict decimal_js configured accepting 1700000000000 1700000000002 (map_of [])
         example_request (Answered calm_outcome)) =
        [Emit (red_alert_payload 1700000000000 calm_outcome severe example_request)])"
proof -
  have t: "truthy (alert_to configured example_request)"
    by (simp add: example_alert(3))
  have a: "\<exists>severe tail.
      summary_severe_radius example_outcome = Inr severe \<and>
      effects (predict decimal_js configured accepting 1700000000000 1700000000002 (map_of [])
         example_request (Answered example_outcome)) =
        Emit (red_alert_payload 1700000000000 example_outcome severe example_request) #
        Check ''alert|+9193xxxxxxx|12.9716|77.5946|12.3'' 1700000000002
          (fst (shouldSend 1700000000002 ''alert|+9193xxxxxxx|12.9716|77.5946|12.3'' (map_of []))) #
        tail \<and>
      list_all (\<lambda>e. \<not> is_emit e) tail"
  proof -
    obtain severe rest where r:
      "summary_severe_radius example_outcome = Inr severe"
      "effects (predict decimal_js configured accepting 1700000000000 1700000000002 (map_of [])
         example_request (Answered example_outcome)) =
        Emit (red_alert_payload 1700000000000 example_outcome severe example_request) # rest"
      "list_all (\<lambda>e. \<not> is_emit e) rest"
      "\<exists>tail. rest = Check ''alert|+9193xxxxxxx|12.9716|77.5946|12.3'' 1700000000002
          (fst (shouldSend 1700000000002 ''alert|+9193xxxxxxx|12.9716|77.5946|12.3'' (map_of []))) #
          tail"
      using predict_broadcasts_once_before_check [where data = example_outcome
          and js = decimal_js and cfg = configured and twilio = accepting
          and ?now0.0 = 1700000000000 and now = 1700000000002 and m = "map_of []"
          and req_body = example_request and severeRadius = "JNum (Fin (123 / 10))"
          and key = "''alert|+9193xxxxxxx|12.9716|77.5946|12.3''"]
        example_outcome_well_formed example_alert(1) t example_severe_radius
        example_alert_composed
      by blast
    from r(4) obtain tail where tl: "rest =
        Check ''alert|+9193xxxxxxx|12.9716|77.5946|12.3'' 1700000000002
          (fst (shouldSend 1700000000002 ''alert|+9193xxxxxxx|12.9716|77.5946|12.3'' (map_of []))) #
          tail"
      by blast
    have "list_all (\<lambda>e. \<not> is_emit e) tail"
      using r(3) unfolding tl by simp
    then show ?thesis using r(1,2) tl by blast
  qed
  have b: "\<exists>severe.
      summary_severe_radius calm_outcome = Inr severe \<and>
      effects (predict decimal_js configured accepting 1700000000000 1700000000002 (map_of [])
         example_request (Answered calm_outcome)) =
        [Emit (red_alert_payload 1700000000000 calm_outcome severe example_request)]"
    using predict_broadcasts_once_before_check [where data = calm_outcome
        and js = decimal_js and cfg = configured and twilio = accepting
        and ?now0.0 = 1700000000000 and now = 1700000000002 and m = "map_of []"
        and req_body = example_request]
      calm_outcome_well_formed example_alert(6)
    by blast
  show ?thesis
    using a b t example_outcome_well_formed calm_outcome_well_formed example_alert(1,6)
      example_severe_radius example_alert_composed(2)
    by blast
qed

text \<open>
  The claim as written (one broadcast for every request whose upstream call succeeds)
  fails for an answer whose \<open>overpressure\<close> is a string: the lookup raises while the
  event is built, nothing is broadcast and the caller gets status 400.
\<close>

theorem predict_no_broadcast_counterexample:
  "effects (predict decimal_js configured accepting 1700000000000 1700000000002 (map_of [])
      example_request (Answered listless_outcome)) = [] \<and>
   response (predict decimal_js configured accepting 1700000000000 1700000000002 (map_of [])
      example_request (Answered listless_outcome)) =
     Inr (Response 400 (JObj [(''error'', JStr ''Prediction failed''),
            (''details'', JStr ''data?.overpressure?.find is not a function'')]))"
  by (simp add: predict_def summary_severe_radius_def band_radius_def listless_outcome_def
        prediction_failed_def)

lemma find_5psi_find:
  "list_all (\<lambda>b. \<not> nullish b) bs \<Longrightarrow>
   find_5psi bs = Inr (case List.find (\<lambda>b. field b ''threshold'' = JStr ''5 psi'') bs of
                         None \<Rightarrow> JUndefined | Some b \<Rightarrow> b)"
  by (induction bs) auto

lemma alert_sms_checked_keys:
  "checked_keys (case alert_sms js cfg twilio now m req_body to severeRadius of
                   Inl e \<Rightarrow> [] | Inr (fx, m') \<Rightarrow> fx) =
     (case alert_body js req_body severeRadius of
        Inl e \<Rightarrow> []
      | Inr body \<Rightarrow>
          (case alert_key js cfg req_body severeRadius of Inl e \<Rightarrow> [] | Inr key \<Rightarrow> [key]))"
  by (auto simp: alert_sms_def and_then_def sendImmediateSMS_def Let_def case_prod_beta
           split: sum.splits provider_outcome.splits)

lemma predict_effects:
  "band_radius data = Inr v \<Longrightarrow> truthy (field data ''red_alert'') \<Longrightarrow>
   truthy (alert_to cfg req_body) \<Longrightarrow>
   effects (predict js cfg twilio now0 now m req_body (Answered data)) =
     Emit (red_alert_payload now0 data (js_coalesce v JNull) req_body) #
     (case alert_sms js cfg twilio now m req_body (alert_to cfg req_body)
             (js_coalesce v (JStr ''?'')) of
        Inl e \<Rightarrow> [] | Inr (fx, m') \<Rightarrow> fx)"
  by (simp add: predict_lookup_returns prediction_failed_def split: sum.splits js_error.splits)

text \<open>
  C4 (as amended). The severe radius of the broadcast summary and the one of the SMS
  come from the same lookup, the \<^verbatim>\<open>radius_km\<close> of the first band of \<open>overpressure\<close>
  whose threshold is "5 psi". They are equal when the lookup finds a radius that is
  neither null nor undefined, and they raise the same error when the lookup raises. When
  the band is absent they differ: the summary carries null, the SMS body and the
  suppression key carry the string "?".
\<close>

theorem severe_radius_lookup_shared:
  "(band_radius data = Inl e \<longrightarrow>
      summary_severe_radius data = Inl e \<and> sms_severe_radius data = Inl e) \<and>
   (band_radius data = Inr v \<and> \<not> nullish v \<longrightarrow>
      summary_severe_radius data = Inr v \<and> sms_severe_radius data = Inr v) \<and>
   (band_radius data = Inr v \<and> nullish v \<longrightarrow>
      summary_severe_radius data = Inr JNull \<and> sms_severe_radius data = Inr (JStr ''?'')) \<and>
   (field data ''overpressure'' = JArr bs \<and> list_all (\<lambda>b. \<not> nullish b) bs \<longrightarrow>
      band_radius data =
        Inr (case List.find (\<lambda>b. field b ''threshold'' = JStr ''5 psi'') bs of
               None \<Rightarrow> JUndefined | Some b \<Rightarrow> field b ''radius_km'')) \<and>
   (band_radius data = Inr v \<and> truthy (field data ''red_alert'') \<and>
    truthy (alert_to cfg req_body) \<longrightarrow>
      effects (predict js cfg twilio now0 now m req_body (Answered data)) =
        Emit (red_alert_payload now0 data (js_coalesce v JNull) req_body) #
        (case alert_sms js cfg twilio now m req_body (alert_to cfg req_body)
                (js_coalesce v (JStr ''?'')) of
           Inl e \<Rightarrow> [] | Inr (fx, m') \<Rightarrow> fx) \<and>
      checked_keys (effects (predict js cfg twilio now0 now m req_body (Answered data))) =
        (case alert_body js req_body (js_coalesce v (JStr ''?'')) of
           Inl e \<Rightarrow> []
         | Inr body \<Rightarrow>
             (case alert_key js cfg req_body (js_coalesce v (JStr ''?'')) of
                Inl e \<Rightarrow> [] | Inr key \<Rightarrow> [key])))"
proof -
  have a: "band_radius data = Inl e \<longrightarrow>
      summary_severe_radius data = Inl e \<and> sms_severe_radius data = Inl e"
    by (simp add: summary_severe_radius_def sms_severe_radius_def)
  have b: "band_radius data = Inr v \<and> \<not> nullish v \<longrightarrow>
      summary_severe_radius data = Inr v \<and> sms_severe_radius data = Inr v"
    by (simp add: summary_severe_radius_def sms_severe_radius_def js_coalesce_def)
  have c: "band_radius data = Inr v \<and> nullish v \<longrightarrow>
      summary_severe_radius data = Inr JNull \<and> sms_severe_radius data = Inr (JStr ''?'')"
    by (simp add: summary_severe_radius_def sms_severe_radius_def js_coalesce_def)
  have d: "field data ''overpressure'' = JArr bs \<and> list_all (\<lambda>b. \<not> nullish b) bs \<longrightarrow>
      band_radius data =
        Inr (case List.find (\<lambda>b. field b ''threshold'' = JStr ''5 psi'') bs of
               None \<Rightarrow> JUndefined | Some b \<Rightarrow> field b ''radius_km'')"
    by (auto simp: band_radius_def find_5psi_find split: option.splits)
  have f: "band_radius data = Inr v \<and> truthy (field data ''red_alert'') \<and>
    truthy (alert_to cfg req_body) \<longrightarrow>
      effects (predict js cfg twilio now0 now m req_body (Answered data)) =
        Emit (red_alert_payload now0 data (js_coalesce v JNull) req_body) #
        (case alert_sms js cfg twilio now m req_body (alert_to cfg req_body)
                (js_coalesce v (JStr ''?'')) of
           Inl e \<Rightarrow> [] | Inr (fx, m') \<Rightarrow> fx) \<and>
      checked_keys (effects (predict js cfg twilio now0 now m req_body (Answered data))) =
        (case alert_body js req_body (js_coalesce v (JStr ''?'')) of
           Inl e \<Rightarrow> []
         | Inr body \<Rightarrow>
             (case alert_key js cfg req_body (js_coalesce v (JStr ''?'')) of
                Inl e \<Rightarrow> [] | Inr key \<Rightarrow> [key]))"
    by (simp add: predict_effects alert_sms_checked_keys)
  show ?thesis using a b c d f by blast
qed

text \<open>
  The claim as written (the two computations agree on every outcome, including when the
  band is absent) fails on a red-alert answer without \<open>overpressure\<close>: null in the
  summary, "?" in the SMS.
\<close>

theorem severe_radius_absent_counterexample:
  "band_radius bandless_outcome = Inr JUndefined \<and>
   summary_severe_radius bandless_outcome = Inr JNull \<and>
   sms_severe_radius bandless_outcome = Inr (JStr ''?'') \<and>
   summary_severe_radius bandless_outcome \<noteq> sms_severe_radius bandless_outcome"
  by (simp add: band_radius_def summary_severe_radius_def sms_severe_radius_def js_coalesce_def
        nullish_def bandless_outcome_def)

lemma band_radius_examples:
  "band_radius example_outcome = Inr (JNum (Fin (123 / 10)))"
  "band_radius bandless_outcome = Inr JUndefined"
  "band_radius listless_outcome =
     Inl (TypeError ''data?.overpressure?.find is not a function'')"
  "band_radius shadowed_radius_outcome = Inr (JObj [(''toString'', JNull)])"
  by (simp_all add: band_radius_def example_outcome_def example_bands_def bandless_outcome_def
        listless_outcome_def shadowed_radius_outcome_def nullish_def)

text \<open>
  An answer whose \<open>overpressure\<close> is not a list, the example answer and the answer
  without bands.
\<close>

theorem severe_radius_lookup_shared_witness:
  "band_radius listless_outcome =
     Inl (TypeError ''data?.overpressure?.find is not a function'') \<and>
   summary_severe_radius listless_outcome =
     Inl (TypeError ''data?.overpressure?.find is not a function'') \<and>
   sms_severe_radius listless_outcome =
     Inl (TypeError ''data?.overpressure?.find is not a function'') \<and>
   band_radius example_outcome = Inr (JNum (Fin (123 / 10))) \<and>
   \<not> nullish (JNum (Fin (123 / 10))) \<and>
   summary_severe_radius example_outcome = Inr (JNum (Fin (123 / 10))) \<and>
   sms_severe_radius example_outcome = Inr (JNum (Fin (123 / 10))) \<and>
   band_radius bandless_outcome = Inr JUndefined \<and> nullish JUndefined \<and>
   summary_severe_radius bandless_outcome = Inr JNull \<and>
   sms_severe_radius bandless_outcome = Inr (JStr ''?'') \<and>
   field example_outcome ''overpressure'' = JArr example_bands \<and>
   list_all (\<lambda>b. \<not> nullish b) example_bands \<and>
   truthy (field example_outcome ''red_alert'') \<and>
   truthy (alert_to configured example_request) \<and>
   checked_keys (effects (predict decimal_js configured accepting 1700000000000 1700000000002
       (map_of []) example_request (Answered example_outcome))) =
     [''alert|+9193xxxxxxx|12.9716|77.5946|12.3''] \<and>
   truthy (field bandless_outcome ''red_alert'') \<and>
   checked_keys (effects (predict decimal_js configured accepting 1700000000000 1700000000002
       (map_of []) example_request (Answered bandless_outcome))) =
     [''alert|+9193xxxxxxx|12.9716|77.5946|?'']"
proof -
  have n: "\<not> nullish (JNum (Fin (123 / 10)))" "nullish JUndefined"
    by (simp_all add: nullish_def)
  have c: "js_coalesce (JNum (Fin (123 / 10))) (JStr ''?'') = JNum (Fin (123 / 10))"
    "js_coalesce JUndefined (JStr ''?'') = JStr ''?''"
    by (simp_all add: js_coalesce_def nullish_def)
  have t: "truthy (alert_to configured example_request)"
    by (simp add: example_alert(3))
  have a: "summary_severe_radius listless_outcome =
             Inl (TypeError ''data?.overpressure?.find is not a function'') \<and>
           sms_severe_radius listless_outcome =
             Inl (TypeError ''data?.overpressure?.find is not a function'')"
    using band_radius_examples(3)
      severe_radius_lookup_shared [where data = listless_outcome
        and e = "TypeError ''data?.overpressure?.find is not a function''"]
    by blast
  have b: "summary_severe_radius example_outcome = Inr (JNum (Fin (123 / 10))) \<and>
           sms_severe_radius example_outcome = Inr (JNum (Fin (123 / 10))) \<and>
           checked_keys (effects (predict decimal_js configured accepting 1700000000000
               1700000000002 (map_of []) example_request (Answered example_outcome))) =
             (case alert_body decimal_js example_request
                     (js_coalesce (JNum (Fin (123 / 10))) (JStr ''?'')) of
                Inl e \<Rightarrow> []
              | Inr body \<Rightarrow>
                  (case alert_key decimal_js configured example_request
                          (js_coalesce (JNum (Fin (123 / 10))) (JStr ''?'')) of
                     Inl e \<Rightarrow> [] | Inr key \<Rightarrow> [key]))"
    using band_radius_examples(1) n(1) example_alert(1) t
      severe_radius_lookup_shared [where data = example_outcome and v = "JNum (Fin (123 / 10))"
        and cfg = configured and req_body = example_request
        and js = decimal_js and twilio = accepting and ?now0.0 = 1700000000000
        and now = 1700000000002 and m = "map_of []"]
    by blast
  have d: "summary_severe_radius bandless_outcome = Inr JNull \<and>
           sms_severe_radius bandless_outcome = Inr (JStr ''?'') \<and>
           checked_keys (effects (predict decimal_js configured accepting 1700000000000
               1700000000002 (map_of []) example_request (Answered bandless_outcome))) =
             (case alert_body decimal_js example_request (js_coalesce JUndefined (JStr ''?'')) of
                Inl e \<Rightarrow> []
              | Inr body \<Rightarrow>
                  (case alert_key decimal_js configured example_request
                          (js_coalesce JUndefined (JStr ''?'')) of
                     Inl e \<Rightarrow> [] | Inr key \<Rightarrow> [key]))"
    using band_radius_examples(2) n(2) example_alert(2) t
      severe_radius_lookup_shared [where data = bandless_outcome and v = JUndefined
        and cfg = configured and req_body = example_request
        and js = decimal_js and twilio = accepting and ?now0.0 = 1700000000000
        and now = 1700000000002 and m = "map_of []"]
    by blast
  have b': "checked_keys (effects (predict decimal_js configured accepting 1700000000000
               1700000000002 (map_of []) example_request (Answered example_outcome))) =
             [''alert|+9193xxxxxxx|12.9716|77.5946|12.3'']"
    using b by (simp add: c example_alert_composed)
  have d': "checked_keys (effects (predict decimal_js configured accepting 1700000000000
               1700000000002 (map_of []) example_request (Answered bandless_outcome))) =
             [''alert|+9193xxxxxxx|12.9716|77.5946|?'']"
    using d by (simp add: c bandless_alert_composed)
  show ?thesis
    using a b b' d d' n t band_radius_examples(1,2,3) example_alert(1,2,4,5) by blast
qed

lemma min_safe_distance_cases:
  "min_safe_distance js severeRadius =
     (case to_number js severeRadius of
        Inl e \<Rightarrow> Inl e
      | Inr n \<Rightarrow>
          Inr (case n of
                 Fin q \<Rightarrow> Fin (max 6 (of_int (round q)))
               | NaN \<Rightarrow> Fin 6
               | PosInf \<Rightarrow> PosInf
               | NegInf \<Rightarrow> Fin 6))"
  by (auto simp: min_safe_distance_def and_then_def number_or_zero_def round_def max_def
           split: sum.splits jsnum.splits)

lemma min_safe_distance_12_3:
  "min_safe_distance js (JNum (Fin (123 / 10))) = Inr (Fin 12)"
proof -
  have "round (123 / 10 :: rat) = 12"
    by (simp add: round_def floor_eq_iff)
  then show ?thesis
    by (simp add: min_safe_distance_cases)
qed

lemma alert_body_parts:
  assumes "alert_body js req_body severeRadius = Inr body"
  shows "\<exists>d s pre post.
       min_safe_distance js severeRadius = Inr d \<and> to_string js severeRadius = Inr s \<and>
       body = pre @ ''Move beyond '' @ number_to_string js d @
              ''km from impact point. Severe zone '' @ approx_mark @ '' '' @ s @ ''km. '' @ post"
proof -
  from assms obtain lat_text lon_text d s where
    d: "min_safe_distance js severeRadius = Inr d" and
    s: "to_string js severeRadius = Inr s" and
    b: "body = siren_mark @ '' EVACUATE NOW '' @ dash_mark @ '' area near '' @ lat_text @ '','' @
          lon_text @ ''. '' @
          ''Move beyond '' @ number_to_string js d @ ''km from impact point. '' @
          ''Severe zone '' @ approx_mark @ '' '' @ s @ ''km. '' @
          ''If coastal, go inland/uphill. Help: 104 '' @ dash_mark @
          '' Disaster Mgmt Dept''"
    by (auto simp: alert_body_def and_then_def split: sum.splits)
  let ?pre = "siren_mark @ '' EVACUATE NOW '' @ dash_mark @ '' area near '' @ lat_text @ '','' @
          lon_text @ ''. ''"
  let ?post = "''If coastal, go inland/uphill. Help: 104 '' @ dash_mark @ '' Disaster Mgmt Dept''"
  have "body = ?pre @ ''Move beyond '' @ number_to_string js d @
              ''km from impact point. Severe zone '' @ approx_mark @ '' '' @ s @ ''km. '' @ ?post"
    using b by simp
  with d s show ?thesis by blast
qed

lemma alert_body_composes:
  "isl (alert_body js req_body severeRadius) =
     (isl (and_then (coordinate js ''lat'' (field req_body ''lat'')) (to_string js)) \<or>
      isl (and_then (coordinate js ''lon'' (field req_body ''lon'')) (to_string js)) \<or>
      isl (to_number js severeRadius) \<or> isl (to_string js severeRadius))"
  by (auto simp: alert_body_def min_safe_distance_def and_then_def split: sum.splits)

lemma predict_dispatches_alert_body:
  "band_radius data = Inr v \<and> truthy (field data ''red_alert'') \<and>
   truthy (alert_to cfg req_body) \<and>
   alert_body js req_body (js_coalesce v (JStr ''?'')) = Inr body \<and>
   alert_key js cfg req_body (js_coalesce v (JStr ''?'')) = Inr key \<and>
   fst (shouldSend now key m) \<longrightarrow>
     SendImmediate (alert_to cfg req_body) (JStr body)
     \<in> set (effects (predict js cfg twilio now0 now m req_body (Answered data)))"
  by (auto simp: predict_effects alert_sms_returns)

lemma predict_alert_body_raises:
  "band_radius data = Inr v \<and> truthy (field data ''red_alert'') \<and>
   truthy (alert_to cfg req_body) \<and>
   alert_body js req_body (js_coalesce v (JStr ''?'')) = Inl (TypeError msg) \<longrightarrow>
     effects (predict js cfg twilio now0 now m req_body (Answered data)) =
       [Emit (red_alert_payload now0 data (js_coalesce v JNull) req_body)] \<and>
     response (predict js cfg twilio now0 now m req_body (Answered data)) =
       Inr (Response 400 (JObj [(''error'', JStr ''Prediction failed''), (''details'', JStr msg)]))"
  by (auto simp: predict_effects predict_response alert_sms_raises)

text \<open>
  C7 (as amended). Composing the alert body either raises or gives a text. It raises
  exactly when one of its conversions does: the text of a coordinate, \<^verbatim>\<open>Number\<close> of the
  severe radius or the text of the severe radius. A text it gives contains
  "Move beyond N km", where N is the rendering of max(6, round(x)) when
  \<^verbatim>\<open>Number(severeRadius)\<close> is a finite number x and of 6 when it is NaN (a severe radius
  whose conversion to a number gives none), followed by "Severe zone" with the severe
  radius rendered as the template literal renders it. When the band is absent the severe
  radius is the string "?", which is rendered as it stands and, \<^verbatim>\<open>Number("?")\<close> being
  NaN, gives the distance 6. For the severe radius 12.3 the distance is 12, and with
  \<^verbatim>\<open>String(12)\<close> = "12" and \<^verbatim>\<open>String(12.3)\<close> = "12.3" the body reads
  "Move beyond 12km from impact point. Severe zone ... 12.3km.". On a red alert with a
  recipient, a body and a key that compose and pass the suppression check, this body is
  handed to \<open>sendImmediateSMS\<close>; when the body raises, nothing follows the broadcast and
  the answer is the status 400 with the message of the error.
\<close>

theorem alert_body_min_safe_distance:
  "(alert_body js req_body severeRadius = Inr body \<longrightarrow>
      (\<exists>d s pre post.
         min_safe_distance js severeRadius = Inr d \<and> to_string js severeRadius = Inr s \<and>
         body = pre @ ''Move beyond '' @ number_to_string js d @
                ''km from impact point. Severe zone '' @ approx_mark @ '' '' @ s @ ''km. '' @
                post)) \<and>
   isl (alert_body js req_body severeRadius) =
     (isl (and_then (coordinate js ''lat'' (field req_body ''lat'')) (to_string js)) \<or>
      isl (and_then (coordinate js ''lon'' (field req_body ''lon'')) (to_string js)) \<or>
      isl (to_number js severeRadius) \<or> isl (to_string js severeRadius)) \<and>
   min_safe_distance js severeRadius =
     (case to_number js severeRadius of
        Inl e \<Rightarrow> Inl e
      | Inr n \<Rightarrow>
          Inr (case n of
                 Fin q \<Rightarrow> Fin (max 6 (of_int (round q)))
               | NaN \<Rightarrow> Fin 6
               | PosInf \<Rightarrow> PosInf
               | NegInf \<Rightarrow> Fin 6)) \<and>
   (band_radius data = Inr v \<and> nullish v \<longrightarrow>
      sms_severe_radius data = Inr (JStr ''?'') \<and> to_string js (JStr ''?'') = Inr ''?'') \<and>
   (string_to_number js ''?'' = NaN \<longrightarrow> min_safe_distance js (JStr ''?'') = Inr (Fin 6)) \<and>
   min_safe_distance js (JNum (Fin (123 / 10))) = Inr (Fin 12) \<and>
   (number_to_string js (Fin 12) = ''12'' \<and> number_to_string js (Fin (123 / 10)) = ''12.3'' \<and>
    alert_body js req_body (JNum (Fin (123 / 10))) = Inr body' \<longrightarrow>
      (\<exists>pre post. body' =
         pre @ ''Move beyond 12km from impact point. Severe zone '' @ approx_mark @
         '' 12.3km. '' @ post)) \<and>
   (band_radius data = Inr v \<and> truthy (field data ''red_alert'') \<and>
    truthy (alert_to cfg req_body) \<and>
    alert_body js req_body (js_coalesce v (JStr ''?'')) = Inr sent \<and>
    alert_key js cfg req_body (js_coalesce v (JStr ''?'')) = Inr key \<and>
    fst (shouldSend now key m) \<longrightarrow>
      SendImmediate (alert_to cfg req_body) (JStr sent)
      \<in> set (effects (predict js cfg twilio now0 now m req_body (Answered data)))) \<and>
   (band_radius data = Inr v \<and> truthy (field data ''red_alert'') \<and>
    truthy (alert_to cfg req_body) \<and>
    alert_body js req_body (js_coalesce v (JStr ''?'')) = Inl (TypeError msg) \<longrightarrow>
      effects (predict js cfg twilio now0 now m req_body (Answered data)) =
        [Emit (red_alert_payload now0 data (js_coalesce v JNull) req_body)] \<and>
      response (predict js cfg twilio now0 now m req_body (Answered data)) =
        Inr (Response 400 (JObj [(''error'', JStr ''Prediction failed''),
               (''details'', JStr msg)])))"
proof -
  have a: "alert_body js req_body severeRadius = Inr body \<longrightarrow>
      (\<exists>d s pre post.
         min_safe_distance js severeRadius = Inr d \<and> to_string js severeRadius = Inr s \<and>
         body = pre @ ''Move beyond '' @ number_to_string js d @
                ''km from impact point. Severe zone '' @ approx_mark @ '' '' @ s @ ''km. '' @
                post)"
    using alert_body_parts by blast
  have c: "band_radius data = Inr v \<and> nullish v \<longrightarrow>
      sms_severe_radius data = Inr (JStr ''?'') \<and> to_string js (JStr ''?'') = Inr ''?''"
    by (simp add: sms_severe_radius_def js_coalesce_def)
  have d: "string_to_number js ''?'' = NaN \<longrightarrow> min_safe_distance js (JStr ''?'') = Inr (Fin 6)"
    by (simp add: min_safe_distance_cases)
  have e: "number_to_string js (Fin 12) = ''12'' \<and>
      number_to_string js (Fin (123 / 10)) = ''12.3'' \<and>
      alert_body js req_body (JNum (Fin (123 / 10))) = Inr body' \<longrightarrow>
      (\<exists>pre post. body' =
         pre @ ''Move beyond 12km from impact point. Severe zone '' @ approx_mark @
         '' 12.3km. '' @ post)"
  proof (intro impI, elim conjE)
    assume p: "number_to_string js (Fin 12) = ''12''"
      and q: "number_to_string js (Fin (123 / 10)) = ''12.3''"
      and r: "alert_body js req_body (JNum (Fin (123 / 10))) = Inr body'"
    obtain dd s pre post where
      "min_safe_distance js (JNum (Fin (123 / 10))) = Inr dd"
      "to_string js (JNum (Fin (123 / 10))) = Inr s"
      "body' = pre @ ''Move beyond '' @ number_to_string js dd @
          ''km from impact point. Severe zone '' @ approx_mark @ '' '' @ s @ ''km. '' @ post"
      using alert_body_parts [OF r] by blast
    then have "body' =
        pre @ ''Move beyond 12km from impact point. Severe zone '' @ approx_mark @
        '' 12.3km. '' @ post"
      by (auto simp: min_safe_distance_12_3 p q)
    then show "\<exists>pre post. body' =
        pre @ ''Move beyond 12km from impact point. Severe zone '' @ approx_mark @
        '' 12.3km. '' @ post"
      by blast
  qed
  show ?thesis
    using a alert_body_composes [of js req_body severeRadius]
      min_safe_distance_cases [of js severeRadius]
      c d min_safe_distance_12_3 [of js] e
      predict_dispatches_alert_body [of data v cfg req_body js sent key now m twilio now0]
      predict_alert_body_raises [of data v cfg req_body js msg twilio now0 now m]
    by blast
qed

text \<open>
  The claim as written (every red-alert outcome has a body, with the figure 6 when the
  severe radius is not numeric) fails on a red-alert answer whose 5 psi band has for
  \<^verbatim>\<open>radius_km\<close> an object with a property named \<^verbatim>\<open>toString\<close>: \<^verbatim>\<open>Number\<close> of it
  raises, no body is composed, nothing is dispatched and the answer is the status 400.
\<close>

theorem alert_body_raises_counterexample:
  "truthy (field shadowed_radius_outcome ''red_alert'') \<and>
   truthy (alert_to configured example_request) \<and>
   sms_severe_radius shadowed_radius_outcome = Inr (JObj [(''toString'', JNull)]) \<and>
   to_number decimal_js (JObj [(''toString'', JNull)]) =
     Inl (TypeError ''Cannot convert object to primitive value'') \<and>
   min_safe_distance decimal_js (JObj [(''toString'', JNull)]) =
     Inl (TypeError ''Cannot convert object to primitive value'') \<and>
   alert_body decimal_js example_request (JObj [(''toString'', JNull)]) =
     Inl (TypeError ''Cannot convert object to primitive value'') \<and>
   filter is_dispatch (effects (predict decimal_js configured accepting 1700000000000
       1700000000002 (map_of []) example_request (Answered shadowed_radius_outcome))) = [] \<and>
   response (predict decimal_js configured accepting 1700000000000 1700000000002 (map_of [])
       example_request (Answered shadowed_radius_outcome)) =
     Inr (Response 400 (JObj [(''error'', JStr ''Prediction failed''),
            (''details'', JStr ''Cannot convert object to primitive value'')]))"
proof -
  have r: "band_radius shadowed_radius_outcome = Inr (JObj [(''toString'', JNull)])"
    by (simp add: band_radius_examples)
  have t: "truthy (field shadowed_radius_outcome ''red_alert'')"
    by (simp add: shadowed_radius_outcome_def)
  have u: "truthy (alert_to configured example_request)"
    by (simp add: example_alert(3))
  have c: "js_coalesce (JObj [(''toString'', JNull)]) (JStr ''?'') = JObj [(''toString'', JNull)]"
    by (simp add: js_coalesce_def nullish_def)
  have s: "sms_severe_radius shadowed_radius_outcome = Inr (JObj [(''toString'', JNull)])"
    by (simp add: sms_severe_radius_def r c)
  have n: "to_number decimal_js (JObj [(''toString'', JNull)]) =
     Inl (TypeError ''Cannot convert object to primitive value'')"
    by simp
  have d: "min_safe_distance decimal_js (JObj [(''toString'', JNull)]) =
     Inl (TypeError ''Cannot convert object to primitive value'')"
    by (simp add: min_safe_distance_def and_then_def)
  have b: "alert_body decimal_js example_request (JObj [(''toString'', JNull)]) =
     Inl (TypeError ''Cannot convert object to primitive value'')"
    by code_simp
  have p: "effects (predict decimal_js configured accepting 1700000000000
       1700000000002 (map_of []) example_request (Answered shadowed_radius_outcome)) =
       [Emit (red_alert_payload 1700000000000 shadowed_radius_outcome
          (js_coalesce (JObj [(''toString'', JNull)]) JNull) example_request)] \<and>
     response (predict decimal_js configured accepting 1700000000000 1700000000002 (map_of [])
       example_request (Answered shadowed_radius_outcome)) =
     Inr (Response 400 (JObj [(''error'', JStr ''Prediction failed''),
            (''details'', JStr ''Cannot convert object to primitive value'')]))"
    using predict_alert_body_raises [of shadowed_radius_outcome "JObj [(''toString'', JNull)]"
        configured example_request decimal_js "''Cannot convert object to primitive value''"
        accepting 1700000000000 1700000000002 "map_of []"] r t u b c
    by simp
  have f: "filter is_dispatch (effects (predict decimal_js configured accepting 1700000000000
       1700000000002 (map_of []) example_request (Answered shadowed_radius_outcome))) = []"
    using p by simp
  show ?thesis
    using t u s n d b f p by blast
qed

lemma decimal_js_examples:
  "number_to_string decimal_js (Fin 12) = ''12''"
  "number_to_string decimal_js (Fin (123 / 10)) = ''12.3''"
  "string_to_number decimal_js ''?'' = NaN"
  by code_simp+

lemma shouldSend_fresh:
  "fst (shouldSend 1700000000002 key (map_of []))"
  by (simp add: shouldSend_def DEBOUNCE_MS_def)

lemma example_coordinates:
  "\<not> isl (and_then (coordinate decimal_js ''lat'' (field example_request ''lat''))
            (to_string decimal_js))"
  "\<not> isl (and_then (coordinate decimal_js ''lon'' (field example_request ''lon''))
            (to_string decimal_js))"
  by (simp_all add: example_request_def coordinate_def and_then_def js_coalesce_def nullish_def)

text \<open>
  With the conversions on decimal numerals: the example request and answer (severe
  radius 12.3), the answer without bands, and the answer whose severe radius cannot be
  converted.
\<close>

theorem alert_body_min_safe_distance_witness:
  "alert_body decimal_js example_request (JNum (Fin (123 / 10))) =
     Inr (siren_mark @ '' EVACUATE NOW '' @ dash_mark @ '' area near 12.972,77.595. '' @
          ''Move beyond 12km from impact point. Severe zone '' @ approx_mark @ '' 12.3km. '' @
          ''If coastal, go inland/uphill. Help: 104 '' @ dash_mark @ '' Disaster Mgmt Dept'') \<and>
   number_to_string decimal_js (Fin 12) = ''12'' \<and>
   number_to_string decimal_js (Fin (123 / 10)) = ''12.3'' \<and>
   (\<exists>pre post.
      siren_mark @ '' EVACUATE NOW '' @ dash_mark @ '' area near 12.972,77.595. '' @
      ''Move beyond 12km from impact point. Severe zone '' @ approx_mark @ '' 12.3km. '' @
      ''If coastal, go inland/uphill. Help: 104 '' @ dash_mark @ '' Disaster Mgmt Dept'' =
      pre @ ''Move beyond 12km from impact point. Severe zone '' @ approx_mark @
      '' 12.3km. '' @ post) \<and>
   \<not> isl (alert_body decimal_js example_request (JStr ''?'')) \<and>
   alert_body decimal_js example_request (JStr ''?'') =
     Inr (siren_mark @ '' EVACUATE NOW '' @ dash_mark @ '' area near 12.972,77.595. '' @
          ''Move beyond 6km from impact point. Severe zone '' @ approx_mark @ '' ?km. '' @
          ''If coastal, go inland/uphill. Help: 104 '' @ dash_mark @ '' Disaster Mgmt Dept'') \<and>
   (\<exists>pre post.
      siren_mark @ '' EVACUATE NOW '' @ dash_mark @ '' area near 12.972,77.595. '' @
      ''Move beyond 6km from impact point. Severe zone '' @ approx_mark @ '' ?km. '' @
      ''If coastal, go inland/uphill. Help: 104 '' @ dash_mark @ '' Disaster Mgmt Dept'' =
      pre @ ''Move beyond '' @ number_to_string decimal_js (Fin 6) @
      ''km from impact point. Severe zone '' @ approx_mark @ '' '' @ ''?'' @ ''km. '' @ post) \<and>
   band_radius bandless_outcome = Inr JUndefined \<and> nullish JUndefined \<and>
   sms_severe_radius bandless_outcome = Inr (JStr ''?'') \<and>
   string_to_number decimal_js ''?'' = NaN \<and>
   min_safe_distance decimal_js (JStr ''?'') = Inr (Fin 6) \<and>
   band_radius example_outcome = Inr (JNum (Fin (123 / 10))) \<and>
   truthy (field example_outcome ''red_alert'') \<and>
   truthy (alert_to configured example_request) \<and>
   alert_key decimal_js configured example_request (JNum (Fin (123 / 10))) =
     Inr ''alert|+9193xxxxxxx|12.9716|77.5946|12.3'' \<and>
   fst (shouldSend 1700000000002 ''alert|+9193xxxxxxx|12.9716|77.5946|12.3'' (map_of [])) \<and>
   SendImmediate (alert_to configured example_request)
      (JStr (siren_mark @ '' EVACUATE NOW '' @ dash_mark @ '' area near 12.972,77.595. '' @
          ''Move beyond 12km from impact point. Severe zone '' @ approx_mark @ '' 12.3km. '' @
          ''If coastal, go inland/uphill. Help: 104 '' @ dash_mark @ '' Disaster Mgmt Dept''))
     \<in> set (effects (predict decimal_js configured accepting 1700000000000 1700000000002
          (map_of []) example_request (Answered example_outcome))) \<and>
   band_radius shadowed_radius_outcome = Inr (JObj [(''toString'', JNull)]) \<and>
   truthy (field shadowed_radius_outcome ''red_alert'') \<and>
   alert_body decimal_js example_request (JObj [(''toString'', JNull)]) =
     Inl (TypeError ''Cannot convert object to primitive value'') \<and>
   effects (predict decimal_js configured accepting 1700000000000 1700000000002 (map_of [])
       example_request (Answered shadowed_radius_outcome)) =
     [Emit (red_alert_payload 1700000000000 shadowed_radius_outcome
        (JObj [(''toString'', JNull)]) example_request)]"
proof -
  let ?text = "siren_mark @ '' EVACUATE NOW '' @ dash_mark @ '' area near 12.972,77.595. '' @
          ''Move beyond 12km from impact point. Severe zone '' @ approx_mark @ '' 12.3km. '' @
          ''If coastal, go inland/uphill. Help: 104 '' @ dash_mark @ '' Disaster Mgmt Dept''"
  let ?text6 = "siren_mark @ '' EVACUATE NOW '' @ dash_mark @ '' area near 12.972,77.595. '' @
          ''Move beyond 6km from impact point. Severe zone '' @ approx_mark @ '' ?km. '' @
          ''If coastal, go inland/uphill. Help: 104 '' @ dash_mark @ '' Disaster Mgmt Dept''"
  let ?key = "''alert|+9193xxxxxxx|12.9716|77.5946|12.3''"
  let ?obj = "JObj [(''toString'', JNull)]"
  have n: "nullish JUndefined"
    by (simp add: nullish_def)
  have c: "js_coalesce (JNum (Fin (123 / 10))) (JStr ''?'') = JNum (Fin (123 / 10))"
    "js_coalesce ?obj (JStr ''?'') = ?obj" "js_coalesce ?obj JNull = ?obj"
    by (simp_all add: js_coalesce_def nullish_def)
  have t: "truthy (alert_to configured example_request)"
    by (simp add: example_alert(3))
  have t': "truthy (field shadowed_radius_outcome ''red_alert'')"
    by (simp add: shadowed_radius_outcome_def)
  have q: "\<not> isl (to_number decimal_js (JStr ''?''))" "\<not> isl (to_string decimal_js (JStr ''?''))"
    by simp_all
  have x: "alert_body decimal_js example_request ?obj =
     Inl (TypeError ''Cannot convert object to primitive value'')"
    by code_simp
  note A = alert_body_min_safe_distance [where js = decimal_js and req_body = example_request
      and severeRadius = "JStr ''?''" and data = bandless_outcome and v = JUndefined
      and body' = ?text and body = ?text6]
  note B = alert_body_min_safe_distance [where js = decimal_js and req_body = example_request
      and data = example_outcome and v = "JNum (Fin (123 / 10))" and cfg = configured
      and now = 1700000000002 and m = "map_of []" and twilio = accepting
      and ?now0.0 = 1700000000000 and sent = ?text and key = ?key, unfolded c]
  note C = alert_body_min_safe_distance [where js = decimal_js and req_body = example_request
      and data = shadowed_radius_outcome and v = ?obj and cfg = configured
      and now = 1700000000002 and m = "map_of []" and twilio = accepting
      and ?now0.0 = 1700000000000
      and msg = "''Cannot convert object to primitive value''", unfolded c]
  have a: "\<exists>pre post. ?text =
      pre @ ''Move beyond 12km from impact point. Severe zone '' @ approx_mark @
      '' 12.3km. '' @ post"
    using A decimal_js_examples(1,2) example_alert_composed(1) by blast
  have a': "\<not> isl (alert_body decimal_js example_request (JStr ''?''))"
    using A example_coordinates q by blast
  have b: "sms_severe_radius bandless_outcome = Inr (JStr ''?'')"
    using A band_radius_examples(2) n by blast
  have d: "min_safe_distance decimal_js (JStr ''?'') = Inr (Fin 6)"
    using A decimal_js_examples(3) by blast
  have g: "\<exists>pre post. ?text6 =
      pre @ ''Move beyond '' @ number_to_string decimal_js (Fin 6) @
      ''km from impact point. Severe zone '' @ approx_mark @ '' '' @ ''?'' @ ''km. '' @ post"
  proof -
    obtain dd s pre post where
      1: "min_safe_distance decimal_js (JStr ''?'') = Inr dd" and
      2: "to_string decimal_js (JStr ''?'') = Inr s" and
      3: "?text6 = pre @ ''Move beyond '' @ number_to_string decimal_js dd @
            ''km from impact point. Severe zone '' @ approx_mark @ '' '' @ s @ ''km. '' @ post"
      using A [THEN conjunct1] bandless_alert_composed(1) by blast
    have "dd = Fin 6" using 1 d by simp
    moreover have "s = ''?''" using 2 by simp
    ultimately show ?thesis using 3 by blast
  qed
  have e: "SendImmediate (alert_to configured example_request) (JStr ?text)
     \<in> set (effects (predict decimal_js configured accepting 1700000000000 1700000000002
          (map_of []) example_request (Answered example_outcome)))"
    using B band_radius_examples(1) example_alert(1) t shouldSend_fresh example_alert_composed
    by blast
  have f: "effects (predict decimal_js configured accepting 1700000000000 1700000000002
       (map_of []) example_request (Answered shadowed_radius_outcome)) =
     [Emit (red_alert_payload 1700000000000 shadowed_radius_outcome ?obj example_request)]"
    using C band_radius_examples(4) t t' x by blast
  show ?thesis
    using a a' b d e f g n t t' x decimal_js_examples band_radius_examples(1,2,4) example_alert(1)
      shouldSend_fresh example_alert_composed bandless_alert_composed(1)
    by blast
qed

section \<open>Properties of the manual handlers\<close>

lemma shouldSend_admitted:
  "fst (shouldSend now key m) \<Longrightarrow> shouldSend now key m = (True, m(key \<mapsto> now))"
  by (simp add: shouldSend_def Let_def split: if_splits)

lemma shouldSend_suppressed:
  "\<not> fst (shouldSend now key m) \<Longrightarrow> shouldSend now key m = (False, m)"
  by (simp add: shouldSend_def Let_def split: if_splits)

lemma shouldSend_within_window:
  "t2 - t1 < 90 * 1000 \<Longrightarrow> shouldSend t2 key (m(key \<mapsto> t1)) = (False, m(key \<mapsto> t1))"
  by (simp add: shouldSend_def DEBOUNCE_MS_def)

lemma truthy_send_body: "truthy (send_body b)"
  by (simp add: send_body_def js_or_def)

lemma truthy_schedule_body: "truthy (schedule_body b)"
  by (simp add: schedule_body_def js_or_def)

lemma send_sms_raises:
  "send_key js cfg b = Inl e \<Longrightarrow>
   send_sms js cfg twilio now m b = \<lparr>response = Inl e, effects = [], store = m\<rparr>"
  by (simp add: send_sms_def)

lemma send_sms_admitted:
  "send_key js cfg b = Inr key \<Longrightarrow> fst (shouldSend now key m) \<Longrightarrow>
   send_sms js cfg twilio now m b =
     \<lparr>response =
        Inr (result_response (fst (sendImmediateSMS cfg twilio (send_to cfg b) (send_body b)))),
      effects = Check key now True # SendImmediate (send_to cfg b) (send_body b) #
                snd (sendImmediateSMS cfg twilio (send_to cfg b) (send_body b)),
      store = m(key \<mapsto> now)\<rparr>"
  by (simp add: send_sms_def shouldSend_admitted Let_def split: prod.splits)

lemma send_sms_suppressed:
  "send_key js cfg b = Inr key \<Longrightarrow> \<not> fst (shouldSend now key m) \<Longrightarrow>
   send_sms js cfg twilio now m b =
     \<lparr>response = Inr (Response 429 (JObj [(''error'', JStr ''Debounced duplicate send'')])),
      effects = [Check key now False], store = m\<rparr>"
  by (simp add: send_sms_def shouldSend_suppressed Let_def)

lemma schedule_sms_raises:
  "schedule_key js cfg now0 b = Inl e \<Longrightarrow>
   schedule_sms js cfg twilio now0 now m b = \<lparr>response = Inl e, effects = [], store = m\<rparr>"
  by (simp add: schedule_sms_def)

lemma schedule_sms_admitted:
  "schedule_key js cfg now0 b = Inr key \<Longrightarrow> fst (shouldSend now key m) \<Longrightarrow>
   schedule_sms js cfg twilio now0 now m b =
     \<lparr>response =
        Inr (result_response (fst (scheduleSMS cfg twilio (send_to cfg b) (schedule_body b)
               (schedule_sendAt now0 b)))),
      effects = Check key now True #
                Schedule (send_to cfg b) (schedule_body b) (schedule_sendAt now0 b) #
                snd (scheduleSMS cfg twilio (send_to cfg b) (schedule_body b) (schedule_sendAt now0 b)),
      store = m(key \<mapsto> now)\<rparr>"
  by (simp add: schedule_sms_def shouldSend_admitted Let_def split: prod.splits)

lemma schedule_sms_suppressed:
  "schedule_key js cfg now0 b = Inr key \<Longrightarrow> \<not> fst (shouldSend now key m) \<Longrightarrow>
   schedule_sms js cfg twilio now0 now m b =
     \<lparr>response = Inr (Response 429 (JObj [(''error'', JStr ''Debounced duplicate schedule'')])),
      effects = [Check key now False], store = m\<rparr>"
  by (simp add: schedule_sms_def shouldSend_suppressed Let_def)

lemma helper_effects:
  "filter is_dispatch (snd (sendImmediateSMS cfg twilio to body)) = []"
  "filter is_provider (snd (sendImmediateSMS cfg twilio to body)) =
     (if requireTwilio cfg \<and> truthy to \<and> truthy body
      then [Provider (Create to body (TWILIO_MSID cfg))] else [])"
  by (simp_all add: sendImmediateSMS_def Let_def split: provider_outcome.splits)

lemma send_key_same:
  "field b2 ''to'' = field b1 ''to'' \<Longrightarrow> field b2 ''body'' = field b1 ''body'' \<Longrightarrow>
   send_key js cfg b2 = send_key js cfg b1"
  by (simp add: send_key_def send_to_def send_body_def)

text \<open>
  C3 (as amended). Two calls of the manual-send endpoint with the same recipient and
  body, the first one composing its key and passing the suppression check, the second
  one made less than 90 seconds after it on the map the first one left: over both calls
  \<open>sendImmediateSMS\<close> is invoked exactly once, by the first call, with the recipient and
  the body of the request (or their defaults). The provider is called exactly once, with
  that recipient and body, when Twilio is configured and the recipient is truthy, and
  not at all otherwise. The second call only consults \<open>shouldSend\<close>, answers status 429
  with "Debounced duplicate send" and leaves the map as it was.
\<close>

theorem manual_send_twice_dispatches_once:
  assumes "send_key js cfg b1 = Inr key" and "fst (shouldSend t1 key m)"
    and "field b2 ''to'' = field b1 ''to''" and "field b2 ''body'' = field b1 ''body''"
    and "t2 - t1 < 90 * 1000"
  shows "(let r1 = send_sms js cfg p1 t1 m b1;
              r2 = send_sms js cfg p2 t2 (store r1) b2;
              to = js_or (field b1 ''to'') (DEFAULT_ALERT_TO cfg);
              body = js_or (field b1 ''body'') (JStr (''Test from Node '' @ check_mark))
          in filter is_dispatch (effects r1 @ effects r2) = [SendImmediate to body] \<and>
             (requireTwilio cfg \<and> truthy to \<longrightarrow>
                filter is_provider (effects r1 @ effects r2) =
                  [Provider (Create to body (TWILIO_MSID cfg))]) \<and>
             (\<not> requireTwilio cfg \<or> \<not> truthy to \<longrightarrow>
                filter is_provider (effects r1 @ effects r2) = []) \<and>
             filter is_provider (effects r2) = [] \<and>
             effects r2 = [Check key t2 False] \<and>
             response r2 = Inr (Response 429 (JObj [(''error'', JStr ''Debounced duplicate send'')])) \<and>
             store r2 = store r1)"
proof -
  have k: "send_key js cfg b2 = Inr key"
    using send_key_same [OF assms(3,4)] assms(1) by simp
  have r1: "send_sms js cfg p1 t1 m b1 =
     \<lparr>response =
        Inr (result_response (fst (sendImmediateSMS cfg p1 (send_to cfg b1) (send_body b1)))),
      effects = Check key t1 True # SendImmediate (send_to cfg b1) (send_body b1) #
                snd (sendImmediateSMS cfg p1 (send_to cfg b1) (send_body b1)),
      store = m(key \<mapsto> t1)\<rparr>"
    using assms(1,2) by (rule send_sms_admitted)
  have "\<not> fst (shouldSend t2 key (m(key \<mapsto> t1)))"
    using shouldSend_within_window [OF assms(5), of key m] by simp
  then have r2: "send_sms js cfg p2 t2 (m(key \<mapsto> t1)) b2 =
     \<lparr>response = Inr (Response 429 (JObj [(''error'', JStr ''Debounced duplicate send'')])),
      effects = [Check key t2 False], store = m(key \<mapsto> t1)\<rparr>"
    using send_sms_suppressed [OF k] by simp
  have b: "truthy (js_or (field b1 ''body'') (JStr (''Test from Node '' @ check_mark)))"
    using truthy_send_body [of b1] by (simp add: send_body_def)
  show ?thesis
    using b by (simp add: Let_def r1 r2 helper_effects send_to_def send_body_def)
qed

lemma hello_examples:
  "field hello_retry ''to'' = field hello_request ''to''"
  "field hello_retry ''body'' = field hello_request ''body''"
  "truthy (field hello_at_noon ''sendAt'')"
  "\<not> truthy (field (JObj []) ''sendAt'')"
  by (simp_all add: hello_request_def hello_retry_def hello_at_noon_def)

lemma shouldSend_fresh_now:
  "fst (shouldSend 1700000000000 key (map_of []))"
  by (simp add: shouldSend_def DEBOUNCE_MS_def)

lemma hello_keys:
  "send_key decimal_js cfg hello_request = Inr ''send|+15550100|hello''"
  "schedule_key decimal_js cfg t0 hello_at_noon =
     Inr ''sched|+15550100|hello|2030-01-01T12:00:00.000Z''"
  by (simp_all add: send_key_def schedule_key_def and_then_def send_to_def send_body_def
        schedule_body_def schedule_sendAt_def js_or_def hello_request_def hello_at_noon_def)

lemma hello_parts:
  "js_or (field hello_request ''to'') (DEFAULT_ALERT_TO cfg) = JStr ''+15550100''"
  "js_or (field hello_request ''body'') (JStr (''Test from Node '' @ check_mark)) = JStr ''hello''"
  by (simp_all add: js_or_def hello_request_def)

lemma configured_examples:
  "requireTwilio configured"
  "TWILIO_MSID configured = JStr ''MGxxxxxxxx''"
  by (simp_all add: requireTwilio_def twilioClient_def TWILIO_MSID_def env_def js_or_def
        configured_def)

lemma phone_only_not_configured: "\<not> requireTwilio phone_only"
  by (simp add: requireTwilio_def twilioClient_def env_def phone_only_def)

text \<open>
  With Twilio configured, a first call on an empty map and a retry 30 seconds later that
  carries the same recipient and body: the provider is asked once to create the message
  "hello" for +15550100.
\<close>

theorem manual_send_twice_dispatches_once_witness:
  "send_key decimal_js configured hello_request = Inr ''send|+15550100|hello'' \<and>
   fst (shouldSend 1700000000000 ''send|+15550100|hello'' (map_of [])) \<and>
   field hello_retry ''to'' = field hello_request ''to'' \<and>
   field hello_retry ''body'' = field hello_request ''body'' \<and>
   (1700000030000 :: int) - 1700000000000 < 90 * 1000 \<and>
   requireTwilio configured \<and>
   filter is_dispatch
     (effects (send_sms decimal_js configured accepting 1700000000000 (map_of []) hello_request) @
      effects (send_sms decimal_js configured rejecting 1700000030000
        (store (send_sms decimal_js configured accepting 1700000000000 (map_of []) hello_request))
        hello_retry)) =
     [SendImmediate (JStr ''+15550100'') (JStr ''hello'')] \<and>
   filter is_provider
     (effects (send_sms decimal_js configured accepting 1700000000000 (map_of []) hello_request) @
      effects (send_sms decimal_js configured rejecting 1700000030000
        (store (send_sms decimal_js configured accepting 1700000000000 (map_of []) hello_request))
        hello_retry)) =
     [Provider (Create (JStr ''+15550100'') (JStr ''hello'') (JStr ''MGxxxxxxxx''))] \<and>
   effects (send_sms decimal_js configured rejecting 1700000030000
        (store (send_sms decimal_js configured accepting 1700000000000 (map_of []) hello_request))
        hello_retry) =
     [Check ''send|+15550100|hello'' 1700000030000 False] \<and>
   response (send_sms decimal_js configured rejecting 1700000030000
        (store (send_sms decimal_js configured accepting 1700000000000 (map_of []) hello_request))
        hello_retry) =
     Inr (Response 429 (JObj [(''error'', JStr ''Debounced duplicate send'')]))"
proof -
  have t: "(1700000030000 :: int) - 1700000000000 < 90 * 1000"
    by simp
  have u: "truthy (JStr ''+15550100'')"
    by simp
  note A = manual_send_twice_dispatches_once [OF hello_keys(1) shouldSend_fresh_now
      hello_examples(1,2) t, of configured accepting rejecting,
      unfolded Let_def hello_parts configured_examples(2)]
  show ?thesis
    using A hello_keys(1) [of configured] shouldSend_fresh_now hello_examples(1,2) t u
      configured_examples(1)
    by blast
qed

text \<open>
  The claim as written (exactly one underlying provider dispatch) fails when Twilio is
  not configured: the first call passes the suppression check, \<open>sendImmediateSMS\<close>
  returns "Twilio not configured" without calling the provider, and the retry 30
  seconds later is suppressed, so that the two calls make no provider dispatch at all.
\<close>

theorem manual_send_no_provider_counterexample:
  "fst (shouldSend 1700000000000 ''send|+15550100|hello'' (map_of [])) \<and>
   effects (send_sms decimal_js phone_only accepting 1700000000000 (map_of []) hello_request) =
     [Check ''send|+15550100|hello'' 1700000000000 True,
      SendImmediate (JStr ''+15550100'') (JStr ''hello'')] \<and>
   response (send_sms decimal_js phone_only accepting 1700000000000 (map_of []) hello_request) =
     Inr (Response 400 (JObj [(''ok'', JBool False), (''error'', JStr ''Twilio not configured'')])) \<and>
   effects (send_sms decimal_js phone_only accepting 1700000030000
        (store (send_sms decimal_js phone_only accepting 1700000000000 (map_of []) hello_request))
        hello_retry) =
     [Check ''send|+15550100|hello'' 1700000030000 False] \<and>
   filter is_provider
     (effects (send_sms decimal_js phone_only accepting 1700000000000 (map_of []) hello_request) @
      effects (send_sms decimal_js phone_only accepting 1700000030000
        (store (send_sms decimal_js phone_only accepting 1700000000000 (map_of []) hello_request))
        hello_retry)) = []"
proof -
  let ?k = "''send|+15550100|hello''"
  have first: "fst (shouldSend 1700000000000 ?k (map_of []))"
    by (rule shouldSend_fresh_now)
  have h: "sendImmediateSMS phone_only accepting (send_to phone_only hello_request)
             (send_body hello_request) = (Failed (JStr ''Twilio not configured''), [])"
    using phone_only_not_configured by (simp add: sendImmediateSMS_def)
  have p: "send_to phone_only hello_request = JStr ''+15550100''"
    "send_body hello_request = JStr ''hello''"
    by (simp_all add: send_to_def send_body_def js_or_def hello_request_def)
  have r1: "send_sms decimal_js phone_only accepting 1700000000000 (map_of []) hello_request =
     \<lparr>response = Inr (Response 400
         (JObj [(''ok'', JBool False), (''error'', JStr ''Twilio not configured'')])),
      effects = [Check ?k 1700000000000 True, SendImmediate (JStr ''+15550100'') (JStr ''hello'')],
      store = (map_of [])(?k \<mapsto> 1700000000000)\<rparr>"
    using send_sms_admitted [OF hello_keys(1) first, of phone_only accepting] h
    by (simp add: p result_response_def result_json_def)
  have k2: "send_key decimal_js phone_only hello_retry = Inr ?k"
    using send_key_same [OF hello_examples(1,2), of decimal_js phone_only] hello_keys(1) by simp
  have "\<not> fst (shouldSend 1700000030000 ?k ((map_of [])(?k \<mapsto> 1700000000000)))"
    by (simp add: shouldSend_def DEBOUNCE_MS_def)
  then have r2: "send_sms decimal_js phone_only accepting 1700000030000
       ((map_of [])(?k \<mapsto> 1700000000000)) hello_retry =
     \<lparr>response = Inr (Response 429 (JObj [(''error'', JStr ''Debounced duplicate send'')])),
      effects = [Check ?k 1700000030000 False], store = (map_of [])(?k \<mapsto> 1700000000000)\<rparr>"
    using send_sms_suppressed [OF k2] by blast
  have s: "store (send_sms decimal_js phone_only accepting 1700000000000 (map_of [])
             hello_request) = (map_of [])(?k \<mapsto> 1700000000000)"
    using r1 by simp
  have e1: "effects (send_sms decimal_js phone_only accepting 1700000000000 (map_of [])
             hello_request) =
     [Check ?k 1700000000000 True, SendImmediate (JStr ''+15550100'') (JStr ''hello'')]"
    using r1 by simp
  have q1: "response (send_sms decimal_js phone_only accepting 1700000000000 (map_of [])
             hello_request) =
     Inr (Response 400 (JObj [(''ok'', JBool False), (''error'', JStr ''Twilio not configured'')]))"
    using r1 by simp
  have e2: "effects (send_sms decimal_js phone_only accepting 1700000030000
        (store (send_sms decimal_js phone_only accepting 1700000000000 (map_of []) hello_request))
        hello_retry) = [Check ?k 1700000030000 False]"
    unfolding s using r2 by simp
  have f: "filter is_provider
     (effects (send_sms decimal_js phone_only accepting 1700000000000 (map_of []) hello_request) @
      effects (send_sms decimal_js phone_only accepting 1700000030000
        (store (send_sms decimal_js phone_only accepting 1700000000000 (map_of []) hello_request))
        hello_retry)) = []"
    unfolding e1 e2 by simp
  show ?thesis
    using first e1 q1 e2 f by blast
qed

lemma send_retry_suppressed:
  assumes "send_key js cfg b = Inr key" and "fst (shouldSend t1 key m)"
    and "t2 - t1 < 90 * 1000"
  shows "response (send_sms js cfg p2 t2 (store (send_sms js cfg p1 t1 m b)) b) =
           Inr (Response 429 (JObj [(''error'', JStr ''Debounced duplicate send'')]))"
  using send_sms_suppressed [OF assms(1), of t2 "m(key \<mapsto> t1)" p2]
  by (simp add: send_sms_admitted [OF assms(1,2)] shouldSend_within_window [OF assms(3)])

lemma schedule_key_own_sendAt:
  "truthy (field b ''sendAt'') \<Longrightarrow> schedule_key js cfg now0' b = schedule_key js cfg now0 b"
  by (simp add: schedule_key_def schedule_sendAt_def js_or_def)

lemma schedule_key_explicit:
  "truthy (field b ''sendAt'') \<Longrightarrow>
   to_string js (send_to cfg b) = Inr to \<Longrightarrow> to_string js (schedule_body b) = Inr body \<Longrightarrow>
   to_string js (field b ''sendAt'') = Inr stamp \<Longrightarrow>
   schedule_key js cfg now0 b = Inr (''sched|'' @ to @ ''|'' @ body @ ''|'' @ stamp)"
  by (simp add: schedule_key_def schedule_sendAt_def js_or_def and_then_def)

lemma schedule_retry_suppressed:
  assumes "schedule_key js cfg t0 b = Inr key" and "fst (shouldSend t1 key m)"
    and "t2 - t1 < 90 * 1000" and "truthy (field b ''sendAt'')"
  shows "response (schedule_sms js cfg p2 t0' t2 (store (schedule_sms js cfg p1 t0 t1 m b)) b) =
           Inr (Response 429 (JObj [(''error'', JStr ''Debounced duplicate schedule'')]))"
proof -
  have k: "schedule_key js cfg t0' b = Inr key"
    using schedule_key_own_sendAt [OF assms(4), of js cfg t0' t0] assms(1) by simp
  show ?thesis
    using schedule_sms_suppressed [OF k, of t2 "m(key \<mapsto> t1)" p2]
    by (simp add: schedule_sms_admitted [OF assms(1,2)] shouldSend_within_window [OF assms(3)])
qed

lemma not_configured_response:
  "\<not> requireTwilio cfg \<Longrightarrow>
   result_response (fst (sendImmediateSMS cfg twilio to body)) =
     Response 400 (JObj [(''ok'', JBool False), (''error'', JStr ''Twilio not configured'')])"
  "\<not> requireTwilio cfg \<Longrightarrow>
   result_response (fst (scheduleSMS cfg twilio to body sendAtISO)) =
     Response 400 (JObj [(''ok'', JBool False), (''error'', JStr ''Twilio not configured'')])"
  by (simp_all add: sendImmediateSMS_def scheduleSMS_def result_response_def result_json_def)

text \<open>
  C10 (as amended). A manual-send or manual-schedule call that passes the suppression
  check (its key composed, the window of the key open) records the clock for its key and
  only then invokes the helper, and the map it leaves holds that timestamp whatever the
  helper returns; with Twilio not configured the call is answered with status 400,
  "Twilio not configured". The retry of a manual-send request, and the retry of a
  manual-schedule request that carries a \<^verbatim>\<open>sendAt\<close> of its own, made less than 90
  seconds later is answered with status 429. A call whose key does not compose never
  reaches the check: it has no effect and leaves the map as it was.
\<close>

theorem timestamp_recorded_before_dispatch:
  "(send_key js cfg b = Inr key \<and> fst (shouldSend t1 key m) \<longrightarrow>
      effects (send_sms js cfg p1 t1 m b) =
        Check key t1 True # SendImmediate (send_to cfg b) (send_body b) #
        snd (sendImmediateSMS cfg p1 (send_to cfg b) (send_body b)) \<and>
      store (send_sms js cfg p1 t1 m b) = m(key \<mapsto> t1) \<and>
      (\<not> requireTwilio cfg \<longrightarrow>
         response (send_sms js cfg p1 t1 m b) =
           Inr (Response 400
                  (JObj [(''ok'', JBool False), (''error'', JStr ''Twilio not configured'')]))) \<and>
      (t2 - t1 < 90 * 1000 \<longrightarrow>
         response (send_sms js cfg p2 t2 (store (send_sms js cfg p1 t1 m b)) b) =
           Inr (Response 429 (JObj [(''error'', JStr ''Debounced duplicate send'')])))) \<and>
   (schedule_key js cfg t0 b = Inr skey \<and> fst (shouldSend t1 skey m) \<longrightarrow>
      effects (schedule_sms js cfg p1 t0 t1 m b) =
        Check skey t1 True #
        Schedule (send_to cfg b) (schedule_body b) (schedule_sendAt t0 b) #
        snd (scheduleSMS cfg p1 (send_to cfg b) (schedule_body b) (schedule_sendAt t0 b)) \<and>
      store (schedule_sms js cfg p1 t0 t1 m b) = m(skey \<mapsto> t1) \<and>
      (\<not> requireTwilio cfg \<longrightarrow>
         response (schedule_sms js cfg p1 t0 t1 m b) =
           Inr (Response 400
                  (JObj [(''ok'', JBool False), (''error'', JStr ''Twilio not configured'')]))) \<and>
      (t2 - t1 < 90 * 1000 \<and> truthy (field b ''sendAt'') \<longrightarrow>
         response (schedule_sms js cfg p2 t0' t2 (store (schedule_sms js cfg p1 t0 t1 m b)) b) =
           Inr (Response 429 (JObj [(''error'', JStr ''Debounced duplicate schedule'')])))) \<and>
   (send_key js cfg b = Inl e \<longrightarrow>
      effects (send_sms js cfg p1 t1 m b) = [] \<and> store (send_sms js cfg p1 t1 m b) = m) \<and>
   (schedule_key js cfg t0 b = Inl e \<longrightarrow>
      effects (schedule_sms js cfg p1 t0 t1 m b) = [] \<and>
      store (schedule_sms js cfg p1 t0 t1 m b) = m)"
  using send_retry_suppressed [of js cfg b key t1 m t2 p2 p1]
    schedule_retry_suppressed [of js cfg t0 b skey t1 m t2 p2 t0' p1]
  by (simp add: send_sms_admitted schedule_sms_admitted not_configured_response
        send_sms_raises schedule_sms_raises)

text \<open>
  With Twilio not configured: a manual-send request and its retry after 30 seconds, and
  a manual-schedule request with a \<^verbatim>\<open>sendAt\<close> of its own and its retry.
\<close>

theorem timestamp_recorded_before_dispatch_witness:
  "send_key decimal_js phone_only hello_request = Inr ''send|+15550100|hello'' \<and>
   fst (shouldSend 1700000000000 ''send|+15550100|hello'' (map_of [])) \<and>
   \<not> requireTwilio phone_only \<and>
   (1700000030000 :: int) - 1700000000000 < 90 * 1000 \<and>
   store (send_sms decimal_js phone_only accepting 1700000000000 (map_of []) hello_request) =
     (map_of [])(''send|+15550100|hello'' \<mapsto> 1700000000000) \<and>
   response (send_sms decimal_js phone_only accepting 1700000000000 (map_of []) hello_request) =
     Inr (Response 400 (JObj [(''ok'', JBool False), (''error'', JStr ''Twilio not configured'')])) \<and>
   response (send_sms decimal_js phone_only accepting 1700000030000
       (store (send_sms decimal_js phone_only accepting 1700000000000 (map_of []) hello_request))
       hello_request) =
     Inr (Response 429 (JObj [(''error'', JStr ''Debounced duplicate send'')])) \<and>
   schedule_key decimal_js phone_only 1699999999999 hello_at_noon =
     Inr ''sched|+15550100|hello|2030-01-01T12:00:00.000Z'' \<and>
   fst (shouldSend 1700000000000 ''sched|+15550100|hello|2030-01-01T12:00:00.000Z'' (map_of [])) \<and>
   truthy (field hello_at_noon ''sendAt'') \<and>
   response (schedule_sms decimal_js phone_only accepting 1699999999999 1700000000000 (map_of [])
       hello_at_noon) =
     Inr (Response 400 (JObj [(''ok'', JBool False), (''error'', JStr ''Twilio not configured'')])) \<and>
   response (schedule_sms decimal_js phone_only accepting 1700000029999 1700000030000
       (store (schedule_sms decimal_js phone_only accepting 1699999999999 1700000000000 (map_of [])
          hello_at_noon))
       hello_at_noon) =
     Inr (Response 429 (JObj [(''error'', JStr ''Debounced duplicate schedule'')]))"
proof -
  have t: "(1700000030000 :: int) - 1700000000000 < 90 * 1000"
    by simp
  note A = timestamp_recorded_before_dispatch [where js = decimal_js and cfg = phone_only
      and b = hello_request and m = "map_of []" and ?t1.0 = 1700000000000
      and ?t2.0 = 1700000030000 and ?p1.0 = accepting and ?p2.0 = accepting
      and key = "''send|+15550100|hello''"]
  note B = timestamp_recorded_before_dispatch [where js = decimal_js and cfg = phone_only
      and b = hello_at_noon and m = "map_of []" and ?t1.0 = 1700000000000
      and ?t2.0 = 1700000030000 and ?t0.0 = 1699999999999 and t0' = 1700000029999
      and ?p1.0 = accepting and ?p2.0 = accepting
      and skey = "''sched|+15550100|hello|2030-01-01T12:00:00.000Z''"]
  show ?thesis
    using A B t shouldSend_fresh_now hello_examples(3) phone_only_not_configured
      hello_keys(1) [of phone_only] hello_keys(2) [of phone_only 1699999999999]
    by blast
qed

lemma default_sendAt_examples:
  "toISOString 1700000060000 = ''2023-11-14T22:14:20.000Z''"
  "toISOString 1700000060001 = ''2023-11-14T22:14:20.001Z''"
  by code_simp+

lemma schedule_key_default:
  "\<not> truthy (field b ''sendAt'') \<Longrightarrow>
   to_string js (send_to cfg b) = Inr to \<Longrightarrow> to_string js (schedule_body b) = Inr body \<Longrightarrow>
   schedule_key js cfg now0 b =
     Inr (''sched|'' @ to @ ''|'' @ body @ ''|'' @ toISOString (now0 + 60000))"
  by (simp add: schedule_key_def schedule_sendAt_def js_or_def and_then_def)

lemma empty_request_keys:
  "schedule_key decimal_js phone_only 1700000000000 (JObj []) =
     Inr (''sched|+9193xxxxxxx|Scheduled from Node '' @ clock_mark @ ''|2023-11-14T22:14:20.000Z'')"
  "schedule_key decimal_js phone_only 1700000000001 (JObj []) =
     Inr (''sched|+9193xxxxxxx|Scheduled from Node '' @ clock_mark @ ''|2023-11-14T22:14:20.001Z'')"
  "schedule_key decimal_js configured 1700000000000 (JObj []) =
     Inr (''sched|+9193xxxxxxx|Scheduled from Node '' @ clock_mark @ ''|2023-11-14T22:14:20.000Z'')"
  "schedule_key decimal_js configured 1700000000001 (JObj []) =
     Inr (''sched|+9193xxxxxxx|Scheduled from Node '' @ clock_mark @ ''|2023-11-14T22:14:20.001Z'')"
  by (simp_all add: schedule_key_default [where to = "''+9193xxxxxxx''"
          and body = "''Scheduled from Node '' @ clock_mark"]
        default_sendAt_examples send_to_def schedule_body_def js_or_def DEFAULT_ALERT_TO_def
        env_def phone_only_def configured_def)

text \<open>
  The claim as written (after a failed dispatch an identical retry within 90 seconds is
  answered 429, for manual-schedule as well) fails for the empty manual-schedule request
  with Twilio not configured: the first call passes the check and fails with status 400,
  and the identical retry one millisecond later passes the check again and fails with
  status 400 again.
\<close>

theorem schedule_retry_not_suppressed_counterexample:
  "schedule_key decimal_js phone_only 1700000000000 (JObj []) =
     Inr (''sched|+9193xxxxxxx|Scheduled from Node '' @ clock_mark @ ''|2023-11-14T22:14:20.000Z'') \<and>
   fst (shouldSend 1700000000000
      (''sched|+9193xxxxxxx|Scheduled from Node '' @ clock_mark @ ''|2023-11-14T22:14:20.000Z'')
      (map_of [])) \<and>
   response (schedule_sms decimal_js phone_only accepting 1700000000000 1700000000000 (map_of [])
      (JObj [])) =
     Inr (Response 400 (JObj [(''ok'', JBool False), (''error'', JStr ''Twilio not configured'')])) \<and>
   (1700000000001 :: int) - 1700000000000 < 90 * 1000 \<and>
   response (schedule_sms decimal_js phone_only accepting 1700000000001 1700000000001
      (store (schedule_sms decimal_js phone_only accepting 1700000000000 1700000000000 (map_of [])
         (JObj [])))
      (JObj [])) =
     Inr (Response 400 (JObj [(''ok'', JBool False), (''error'', JStr ''Twilio not configured'')]))"
proof -
  let ?k1 = "''sched|+9193xxxxxxx|Scheduled from Node '' @ clock_mark @ ''|2023-11-14T22:14:20.000Z''"
  let ?k2 = "''sched|+9193xxxxxxx|Scheduled from Node '' @ clock_mark @ ''|2023-11-14T22:14:20.001Z''"
  have first: "fst (shouldSend 1700000000000 ?k1 (map_of []))"
    by (rule shouldSend_fresh_now)
  have r1: "store (schedule_sms decimal_js phone_only accepting 1700000000000 1700000000000
      (map_of []) (JObj [])) = (map_of [])(?k1 \<mapsto> 1700000000000)"
    using schedule_sms_admitted [OF empty_request_keys(1) first, of accepting] by simp
  have second: "fst (shouldSend 1700000000001 ?k2 ((map_of [])(?k1 \<mapsto> 1700000000000)))"
    by (simp add: shouldSend_def DEBOUNCE_MS_def)
  have q1: "response (schedule_sms decimal_js phone_only accepting 1700000000000 1700000000000
      (map_of []) (JObj [])) =
     Inr (Response 400 (JObj [(''ok'', JBool False), (''error'', JStr ''Twilio not configured'')]))"
    using schedule_sms_admitted [OF empty_request_keys(1) first, of accepting]
    by (simp add: not_configured_response phone_only_not_configured)
  have q2: "response (schedule_sms decimal_js phone_only accepting 1700000000001 1700000000001
      ((map_of [])(?k1 \<mapsto> 1700000000000)) (JObj [])) =
     Inr (Response 400 (JObj [(''ok'', JBool False), (''error'', JStr ''Twilio not configured'')]))"
    using schedule_sms_admitted [OF empty_request_keys(2) second, of accepting]
    by (simp add: not_configured_response phone_only_not_configured)
  have t: "(1700000000001 :: int) - 1700000000000 < 90 * 1000"
    by simp
  show ?thesis
    using empty_request_keys(1) first q1 t q2 unfolding r1 by blast
qed

lemma send_sms_checked_keys:
  "checked_keys (effects (send_sms js cfg twilio now m b)) =
     (case send_key js cfg b of Inl e \<Rightarrow> [] | Inr k \<Rightarrow> [k])"
proof (cases "send_key js cfg b")
  case (Inl e)
  then show ?thesis by (simp add: send_sms_raises)
next
  case (Inr k)
  show ?thesis
  proof (cases "fst (shouldSend now k m)")
    case True
    then show ?thesis
      using Inr
      by (simp add: send_sms_admitted sendImmediateSMS_def Let_def split: provider_outcome.splits)
  next
    case False
    then show ?thesis using Inr by (simp add: send_sms_suppressed)
  qed
qed

lemma schedule_sms_checked_keys:
  "checked_keys (effects (schedule_sms js cfg twilio now0 now m b)) =
     (case schedule_key js cfg now0 b of Inl e \<Rightarrow> [] | Inr k \<Rightarrow> [k])"
proof (cases "schedule_key js cfg now0 b")
  case (Inl e)
  then show ?thesis by (simp add: schedule_sms_raises)
next
  case (Inr k)
  show ?thesis
  proof (cases "fst (shouldSend now k m)")
    case True
    then show ?thesis
      using Inr
      by (simp add: schedule_sms_admitted scheduleSMS_def Let_def split: provider_outcome.splits)
  next
    case False
    then show ?thesis using Inr by (simp add: schedule_sms_suppressed)
  qed
qed

lemma send_key_explicit:
  "to_string js (send_to cfg b) = Inr to \<Longrightarrow> to_string js (send_body b) = Inr body \<Longrightarrow>
   send_key js cfg b = Inr (''send|'' @ to @ ''|'' @ body)"
  by (simp add: send_key_def and_then_def)

lemma predict_checked_keys:
  "checked_keys (effects (predict js cfg twilio now0 now m b r)) =
     (case r of
        Rejected response_data msg \<Rightarrow> []
      | Answered data \<Rightarrow>
          (case band_radius data of
             Inl e \<Rightarrow> []
           | Inr v \<Rightarrow>
               if truthy (field data ''red_alert'') \<and> truthy (alert_to cfg b)
               then (case alert_body js b (js_coalesce v (JStr ''?'')) of
                       Inl e \<Rightarrow> []
                     | Inr body \<Rightarrow>
                         (case alert_key js cfg b (js_coalesce v (JStr ''?'')) of
                            Inl e \<Rightarrow> [] | Inr key \<Rightarrow> [key]))
               else []))"
proof (cases r)
  case (Rejected response_data msg)
  then show ?thesis by (simp add: predict_def prediction_failed_def)
next
  case (Answered data)
  show ?thesis
  proof (cases "band_radius data")
    case (Inl e)
    then show ?thesis
      using Answered by (cases e) (simp add: predict_lookup_raises prediction_failed_def)
  next
    case (Inr v)
    show ?thesis
    proof (cases "truthy (field data ''red_alert'') \<and> truthy (alert_to cfg b)")
      case True
      then show ?thesis
        using Answered Inr alert_sms_checked_keys [of js cfg twilio now m b "alert_to cfg b"
            "js_coalesce v (JStr ''?'')"]
        by (simp add: predict_effects)
    next
      case False
      then show ?thesis
        using Answered Inr by (auto simp: predict_lookup_returns)
    qed
  qed
qed

text \<open>
  C1 (as amended). Each manual handler consults \<open>shouldSend\<close> at most once: exactly
  once, with the key of its template, when the conversions of the template return, and
  not at all when one of them raises. The key of manual-send is a function of the request
  body and the configured default recipient: two calls with the same body check the same
  key, whatever the clock, the suppression map and the provider are. The same holds for
  manual-schedule when the request carries a (truthy) \<^verbatim>\<open>sendAt\<close>, and for the red-alert
  key of the prediction handler, a function of the request body, the default recipient
  and the upstream answer.
\<close>

theorem suppression_key_derivation:
  "checked_keys (effects (send_sms js cfg p now m b)) =
     (case send_key js cfg b of Inl e \<Rightarrow> [] | Inr k \<Rightarrow> [k]) \<and>
   (to_string js (send_to cfg b) = Inr to \<and> to_string js (send_body b) = Inr body \<longrightarrow>
      checked_keys (effects (send_sms js cfg p now m b)) = [''send|'' @ to @ ''|'' @ body]) \<and>
   checked_keys (effects (send_sms js cfg p' now' m' b)) =
     checked_keys (effects (send_sms js cfg p now m b)) \<and>
   (truthy (field b ''sendAt'') \<longrightarrow>
      schedule_key js cfg now0' b = schedule_key js cfg now0 b \<and>
      checked_keys (effects (schedule_sms js cfg p now0 now m b)) =
        (case schedule_key js cfg now0 b of Inl e \<Rightarrow> [] | Inr k \<Rightarrow> [k]) \<and>
      (to_string js (send_to cfg b) = Inr to \<and> to_string js (schedule_body b) = Inr sbody \<and>
       to_string js (field b ''sendAt'') = Inr stamp \<longrightarrow>
         checked_keys (effects (schedule_sms js cfg p now0 now m b)) =
           [''sched|'' @ to @ ''|'' @ sbody @ ''|'' @ stamp]) \<and>
      checked_keys (effects (schedule_sms js cfg p' now0' now' m' b)) =
        checked_keys (effects (schedule_sms js cfg p now0 now m b))) \<and>
   checked_keys (effects (predict js cfg p' now0' now' m' b r)) =
     checked_keys (effects (predict js cfg p now0 now m b r))"
proof -
  have a: "to_string js (send_to cfg b) = Inr to \<and> to_string js (send_body b) = Inr body \<longrightarrow>
      checked_keys (effects (send_sms js cfg p now m b)) = [''send|'' @ to @ ''|'' @ body]"
    by (simp add: send_sms_checked_keys send_key_explicit)
  have s: "truthy (field b ''sendAt'') \<longrightarrow>
      schedule_key js cfg now0' b = schedule_key js cfg now0 b"
    using schedule_key_own_sendAt by blast
  have c: "truthy (field b ''sendAt'') \<longrightarrow>
      (to_string js (send_to cfg b) = Inr to \<and> to_string js (schedule_body b) = Inr sbody \<and>
       to_string js (field b ''sendAt'') = Inr stamp \<longrightarrow>
         checked_keys (effects (schedule_sms js cfg p now0 now m b)) =
           [''sched|'' @ to @ ''|'' @ sbody @ ''|'' @ stamp])"
    by (simp add: schedule_sms_checked_keys schedule_key_explicit)
  have d: "truthy (field b ''sendAt'') \<longrightarrow>
      checked_keys (effects (schedule_sms js cfg p' now0' now' m' b)) =
        checked_keys (effects (schedule_sms js cfg p now0 now m b))"
    using s by (simp add: schedule_sms_checked_keys)
  show ?thesis
    using a s c d
    by (simp add: send_sms_checked_keys schedule_sms_checked_keys predict_checked_keys)
qed

text \<open>
  A manual-send request at two times and on two maps, a manual-schedule request with a
  \<^verbatim>\<open>sendAt\<close> of its own likewise, and the example prediction.
\<close>

theorem suppression_key_derivation_witness:
  "to_string decimal_js (send_to configured hello_request) = Inr ''+15550100'' \<and>
   to_string decimal_js (send_body hello_request) = Inr ''hello'' \<and>
   checked_keys (effects (send_sms decimal_js configured accepting 1700000000000 (map_of [])
      hello_request)) = [''send|+15550100|hello''] \<and>
   checked_keys (effects (send_sms decimal_js configured rejecting 1700000030000
      (map_of [(''send|+15550100|hello'', 1700000000000)]) hello_request)) =
     checked_keys (effects (send_sms decimal_js configured accepting 1700000000000 (map_of [])
      hello_request)) \<and>
   truthy (field hello_at_noon ''sendAt'') \<and>
   to_string decimal_js (send_to configured hello_at_noon) = Inr ''+15550100'' \<and>
   to_string decimal_js (schedule_body hello_at_noon) = Inr ''hello'' \<and>
   to_string decimal_js (field hello_at_noon ''sendAt'') = Inr ''2030-01-01T12:00:00.000Z'' \<and>
   checked_keys (effects (schedule_sms decimal_js configured accepting 1700000000000 1700000000001
      (map_of []) hello_at_noon)) = [''sched|+15550100|hello|2030-01-01T12:00:00.000Z''] \<and>
   checked_keys (effects (schedule_sms decimal_js configured rejecting 1700000030000 1700000030002
      (map_of [(''send|+15550100|hello'', 1700000000000)]) hello_at_noon)) =
     checked_keys (effects (schedule_sms decimal_js configured accepting 1700000000000 1700000000001
      (map_of []) hello_at_noon)) \<and>
   checked_keys (effects (predict decimal_js configured rejecting 1700000030000 1700000030002
      (map_of [(''send|+15550100|hello'', 1700000000000)]) example_request
      (Answered example_outcome))) =
     checked_keys (effects (predict decimal_js configured accepting 1700000000000 1700000000001
      (map_of []) example_request (Answered example_outcome)))"
proof -
  have h: "to_string decimal_js (send_to configured hello_request) = Inr ''+15550100''"
    "to_string decimal_js (send_body hello_request) = Inr ''hello''"
    "to_string decimal_js (send_to configured hello_at_noon) = Inr ''+15550100''"
    "to_string decimal_js (schedule_body hello_at_noon) = Inr ''hello''"
    "to_string decimal_js (field hello_at_noon ''sendAt'') = Inr ''2030-01-01T12:00:00.000Z''"
    by (simp_all add: send_to_def send_body_def schedule_body_def js_or_def hello_request_def
          hello_at_noon_def)
  note A = suppression_key_derivation [where js = decimal_js and cfg = configured
      and p = accepting and now = 1700000000000 and m = "map_of []" and b = hello_request
      and p' = rejecting and now' = 1700000030000
      and m' = "map_of [(''send|+15550100|hello'', 1700000000000)]"
      and to = "''+15550100''" and body = "''hello''"
      and ?now0.0 = 1700000000000 and now0' = 1700000030000 and sbody = "''hello''"
      and stamp = "''2030-01-01T12:00:00.000Z''" and r = "Answered example_outcome"]
  note B = suppression_key_derivation [where js = decimal_js and cfg = configured
      and p = accepting and ?now0.0 = 1700000000000 and now = 1700000000001 and m = "map_of []"
      and b = hello_at_noon and p' = rejecting and now0' = 1700000030000 and now' = 1700000030002
      and m' = "map_of [(''send|+15550100|hello'', 1700000000000)]"
      and to = "''+15550100''" and body = "''hello''" and sbody = "''hello''"
      and stamp = "''2030-01-01T12:00:00.000Z''" and r = "Answered example_outcome"]
  note C = suppression_key_derivation [where js = decimal_js and cfg = configured
      and p = accepting and ?now0.0 = 1700000000000 and now = 1700000000001 and m = "map_of []"
      and b = example_request and p' = rejecting and now0' = 1700000030000 and now' = 1700000030002
      and m' = "map_of [(''send|+15550100|hello'', 1700000000000)]"
      and to = "''+15550100''" and body = "''hello''" and sbody = "''hello''"
      and stamp = "''2030-01-01T12:00:00.000Z''" and r = "Answered example_outcome"]
  have "checked_keys (effects (send_sms decimal_js configured accepting 1700000000000
      (map_of []) hello_request)) = [''send|'' @ ''+15550100'' @ ''|'' @ ''hello'']"
    using A h(1,2) by blast
  then have a: "checked_keys (effects (send_sms decimal_js configured accepting 1700000000000
      (map_of []) hello_request)) = [''send|+15550100|hello'']"
    by simp
  have a': "checked_keys (effects (send_sms decimal_js configured rejecting 1700000030000
      (map_of [(''send|+15550100|hello'', 1700000000000)]) hello_request)) =
     checked_keys (effects (send_sms decimal_js configured accepting 1700000000000 (map_of [])
      hello_request))"
    using A by blast
  have "checked_keys (effects (schedule_sms decimal_js configured accepting 1700000000000
      1700000000001 (map_of []) hello_at_noon)) =
      [''sched|'' @ ''+15550100'' @ ''|'' @ ''hello'' @ ''|'' @ ''2030-01-01T12:00:00.000Z'']"
    using B h(3,4,5) hello_examples(3) by blast
  then have b: "checked_keys (effects (schedule_sms decimal_js configured accepting 1700000000000
      1700000000001 (map_of []) hello_at_noon)) =
      [''sched|+15550100|hello|2030-01-01T12:00:00.000Z'']"
    by simp
  have b': "checked_keys (effects (schedule_sms decimal_js configured rejecting 1700000030000
      1700000030002 (map_of [(''send|+15550100|hello'', 1700000000000)]) hello_at_noon)) =
     checked_keys (effects (schedule_sms decimal_js configured accepting 1700000000000
      1700000000001 (map_of []) hello_at_noon))"
    using B hello_examples(3) by blast
  have c: "checked_keys (effects (predict decimal_js configured rejecting 1700000030000
      1700000030002 (map_of [(''send|+15550100|hello'', 1700000000000)]) example_request
      (Answered example_outcome))) =
     checked_keys (effects (predict decimal_js configured accepting 1700000000000 1700000000001
      (map_of []) example_request (Answered example_outcome)))"
    using C by blast
  show ?thesis
    using a a' b b' c h hello_examples(3) by blast
qed

text \<open>
  The claim as written (identical requests always derive the same key, also when the
  timestamp of a manual-schedule request is omitted) fails for the empty manual-schedule
  request handled at two clock readings one millisecond apart: the keys end in
  20.000Z and 20.001Z.
\<close>

theorem schedule_key_reads_clock_counterexample:
  "checked_keys (effects (schedule_sms decimal_js configured accepting 1700000000000 1700000000000
      (map_of []) (JObj []))) =
     [''sched|+9193xxxxxxx|Scheduled from Node '' @ clock_mark @ ''|2023-11-14T22:14:20.000Z''] \<and>
   checked_keys (effects (schedule_sms decimal_js configured accepting 1700000000001 1700000000001
      (map_of []) (JObj []))) =
     [''sched|+9193xxxxxxx|Scheduled from Node '' @ clock_mark @ ''|2023-11-14T22:14:20.001Z''] \<and>
   checked_keys (effects (schedule_sms decimal_js configured accepting 1700000000000 1700000000000
      (map_of []) (JObj []))) \<noteq>
   checked_keys (effects (schedule_sms decimal_js configured accepting 1700000000001 1700000000001
      (map_of []) (JObj [])))"
  by (simp add: schedule_sms_checked_keys empty_request_keys)

end
